theory Spec2Isabelle
  imports Main
begin

section \<open>Python strings\<close>

text \<open>
  A Python \<open>str\<close> is a sequence of Unicode code points, so it is modelled as a list of
  integers. The table of status synonyms has Japanese keys, which are written
  here by their code points. \<open>ascii\<close> turns an ASCII literal into such a string.
\<close>

type_synonym pystr = "int list"

definition ascii :: "string \<Rightarrow> pystr" where
  "ascii s = map of_char s"

text \<open>
  \<open>str.strip()\<close> without argument removes leading and trailing white space, that is the
  code points for which \<open>str.isspace\<close> holds.
\<close>

definition py_isspace :: "int \<Rightarrow> bool" where
  "py_isspace c \<longleftrightarrow>
     (9 \<le> c \<and> c \<le> 13) \<or> (28 \<le> c \<and> c \<le> 32) \<or> c = 133 \<or> c = 160 \<or> c = 5760 \<or>
     (8192 \<le> c \<and> c \<le> 8202) \<or> c = 8232 \<or> c = 8233 \<or> c = 8239 \<or> c = 8287 \<or> c = 12288"

definition py_strip :: "pystr \<Rightarrow> pystr" where
  "py_strip s = rev (dropWhile py_isspace (rev (dropWhile py_isspace s)))"

text \<open>
  Two library functions depend on the Unicode character database of the interpreter and
  are taken as parameters: \<open>str.lower\<close> (a function on whole strings: the lower-case
  form of a code point may be several code points, and that of a capital sigma depends on
  its position), and the value of a decimal digit, which is what the pattern \<open>\d\<close> and
  \<open>int\<close> accept. \<open>ascii_db\<close> is their restriction to ASCII.
\<close>

record unicode_db =
  lower :: "pystr \<Rightarrow> pystr"
  decimal :: "int \<Rightarrow> nat option"

definition ascii_lower :: "pystr \<Rightarrow> pystr" where
  "ascii_lower s = map (\<lambda>c. if 65 \<le> c \<and> c \<le> 90 then c + 32 else c) s"

definition ascii_decimal :: "int \<Rightarrow> nat option" where
  "ascii_decimal c = (if 48 \<le> c \<and> c \<le> 57 then Some (nat (c - 48)) else None)"

text \<open>
  What holds of these two functions in every version of the database: the lower-case
  form of the empty string is empty, and the ASCII digits have their values.
\<close>

definition db_ok :: "unicode_db \<Rightarrow> bool" where
  "db_ok db \<longleftrightarrow>
     lower db [] = [] \<and> list_all (\<lambda>c. decimal db c = Some (nat (c - 48))) [48, 49, 50, 51, 52, 53, 54, 55, 56, 57]"

definition ascii_db :: unicode_db where
  "ascii_db = \<lparr>lower = ascii_lower, decimal = ascii_decimal\<rparr>"

section \<open>The busy-status mapper\<close>

text \<open>
  \<open>STATUS_MAP\<close> of \<open>main.py\<close>, in the order of the source. The Japanese keys are
  U+4F11 U+307F, U+4E0D U+5728, U+5916 U+51FA, U+5FD9 U+3057 U+3044, U+4EEE,
  U+5728 U+5E2D, U+7A7A U+304D and U+4ED6 U+6240 U+52E4 U+52D9.
\<close>

definition STATUS_MAP :: "(pystr \<times> int) list" where
  "STATUS_MAP =
    [([20241, 12415], 3),
     (ascii ''ooo'', 3),
     ([19981, 22312], 3),
     (ascii ''outofoffice'', 3),
     ([22806, 20986], 2),
     ([24537, 12375, 12356], 2),
     (ascii ''busy'', 2),
     ([20206], 1),
     (ascii ''tentative'', 1),
     ([22312, 24109], 0),
     ([31354, 12365], 0),
     (ascii ''free'', 0),
     ([20182, 25152, 21220, 21209], 4),
     (ascii ''workingelsewhere'', 4)]"

text \<open>
  \<^verbatim>\<open>
  def map_busy_status(value: str) -> int:
      key = (value or "").strip().lower()
      if not key:
          return 2
      return STATUS_MAP.get(key, 2)
  \<close>
\<close>

definition map_busy_status :: "unicode_db \<Rightarrow> pystr \<Rightarrow> int" where
  "map_busy_status db v =
     (let key = lower db (py_strip v)
      in if key = [] then 2
         else (case map_of STATUS_MAP key of Some c \<Rightarrow> c | None \<Rightarrow> 2))"

section \<open>The CSV loader\<close>

definition EXPECTED_FIELDS :: "pystr list" where
  "EXPECTED_FIELDS =
    [ascii ''Date'', ascii ''Start'', ascii ''End'', ascii ''Subject'', ascii ''Status'',
     ascii ''Location'', ascii ''Body'']"

record ScheduleRow =
  row_number :: int
  date :: pystr
  start :: pystr
  end' :: pystr
  subject :: pystr
  status :: pystr
  location :: pystr
  body :: pystr
  busy :: int

text \<open>
  The exceptions that leave \<open>_load_csv\<close>: the two \<open>ValueError\<close>s it raises itself, and
  the \<open>AttributeError\<close> of calling \<open>strip\<close> on a list.
\<close>

datatype exn = ValueError pystr | AttributeError

subsection \<open>csv.DictReader\<close>

text \<open>
  The input of the loader is the sequence of rows that \<open>csv.reader\<close> yields for the file,
  each a list of cells; an empty line of the file yields the empty list. Where no quoted
  cell spans several lines, the row at position \<open>i\<close> of that sequence (counted from 0)
  is line \<open>i + 1\<close> of the file.

  \<open>csv.DictReader\<close> takes the first row as the field names (\<open>None\<close> when there is no row
  at all). For every later row that is not the empty list it builds a dictionary, in
  insertion order: the field names zipped with the cells; when the row has more cells
  than there are field names, the remaining cells as a list under the key \<open>None\<close>
  (\<open>restkey\<close>); when it has fewer, \<open>None\<close> (\<open>restval\<close>) under each remaining field name.
  Rows that are the empty list are passed over and yield nothing.

  A dictionary is an association list in insertion order; assigning to a key that is
  present replaces its value in place. A key is \<open>Some name\<close> or \<open>None\<close>, a value a
  string, \<open>None\<close> or a list of strings.
\<close>

datatype pyval = Str pystr | NoneVal | ListVal "pystr list"

type_synonym rawrow = "(pystr option \<times> pyval) list"

fun dict_set :: "('k \<times> 'v) list \<Rightarrow> 'k \<Rightarrow> 'v \<Rightarrow> ('k \<times> 'v) list" where
  "dict_set [] k v = [(k, v)]"
| "dict_set ((k', v') # d) k v =
     (if k' = k then (k', v) # d else (k', v') # dict_set d k v)"

definition dict_get :: "rawrow \<Rightarrow> pystr \<Rightarrow> pyval" where
  "dict_get raw name = (case map_of raw (Some name) of None \<Rightarrow> NoneVal | Some v \<Rightarrow> v)"

definition fieldnames :: "pystr list list \<Rightarrow> pystr list option" where
  "fieldnames lines = (case lines of [] \<Rightarrow> None | h # _ \<Rightarrow> Some h)"

definition dict_row :: "pystr list \<Rightarrow> pystr list \<Rightarrow> rawrow" where
  "dict_row names cells =
     (let d = foldl (\<lambda>d (k, v). dict_set d (Some k) (Str v)) [] (zip names cells);
          lf = length names;
          lr = length cells
      in if lf < lr then dict_set d None (ListVal (drop lf cells))
         else if lf > lr then foldl (\<lambda>d k. dict_set d (Some k) NoneVal) d (drop lr names)
         else d)"

definition DictReader :: "pystr list list \<Rightarrow> rawrow list" where
  "DictReader lines =
     (case lines of
        [] \<Rightarrow> []
      | names # rest \<Rightarrow> map (dict_row names) (filter (\<lambda>cells. cells \<noteq> []) rest))"

subsection \<open>Loading\<close>

text \<open>
  \<open>(value or "").strip()\<close>: \<open>None\<close>, the empty string and the empty list are false, so
  they give the empty string; a non-empty list has no \<open>strip\<close>.
\<close>

definition strip_or_empty :: "pyval \<Rightarrow> exn + pystr" where
  "strip_or_empty v =
     (case v of
        Str s \<Rightarrow> Inr (py_strip s)
      | NoneVal \<Rightarrow> Inr []
      | ListVal l \<Rightarrow> if l = [] then Inr [] else Inl AttributeError)"

text \<open>
  \<open>any((value or "").strip() for value in raw.values())\<close> evaluates the values in order
  and stops at the first one that is not blank.
\<close>

fun any_nonblank :: "pyval list \<Rightarrow> exn + bool" where
  "any_nonblank [] = Inr False"
| "any_nonblank (v # vs) =
     (case strip_or_empty v of
        Inl e \<Rightarrow> Inl e
      | Inr s \<Rightarrow> if s \<noteq> [] then Inr True else any_nonblank vs)"

definition bind_exn :: "exn + 'a \<Rightarrow> ('a \<Rightarrow> exn + 'b) \<Rightarrow> exn + 'b" where
  "bind_exn m f = (case m of Inl e \<Rightarrow> Inl e | Inr x \<Rightarrow> f x)"

definition make_row :: "unicode_db \<Rightarrow> int \<Rightarrow> rawrow \<Rightarrow> exn + ScheduleRow" where
  "make_row db index raw =
     bind_exn (strip_or_empty (dict_get raw (ascii ''Date''))) (\<lambda>date_v.
     bind_exn (strip_or_empty (dict_get raw (ascii ''Start''))) (\<lambda>start_v.
     bind_exn (strip_or_empty (dict_get raw (ascii ''End''))) (\<lambda>end_v.
     bind_exn (strip_or_empty (dict_get raw (ascii ''Subject''))) (\<lambda>subject_v.
     bind_exn (strip_or_empty (dict_get raw (ascii ''Status''))) (\<lambda>status_v.
     bind_exn (strip_or_empty (dict_get raw (ascii ''Location''))) (\<lambda>location_v.
     bind_exn (strip_or_empty (dict_get raw (ascii ''Body''))) (\<lambda>body_v.
       Inr \<lparr>row_number = index, date = date_v, start = start_v, end' = end_v,
            subject = subject_v, status = status_v, location = location_v, body = body_v,
            busy = map_busy_status db status_v\<rparr>)))))))"

text \<open>
  The loop \<open>for index, raw in enumerate(reader, start=2)\<close>. An exception in a row ends
  the load; a blank row is passed over and the index still advances.
\<close>

fun load_rows :: "unicode_db \<Rightarrow> int \<Rightarrow> rawrow list \<Rightarrow> exn + ScheduleRow list" where
  "load_rows db index [] = Inr []"
| "load_rows db index (raw # rest) =
     (case any_nonblank (map snd raw) of
        Inl e \<Rightarrow> Inl e
      | Inr False \<Rightarrow> load_rows db (index + 1) rest
      | Inr True \<Rightarrow>
          (case make_row db index raw of
             Inl e \<Rightarrow> Inl e
           | Inr r \<Rightarrow>
               (case load_rows db (index + 1) rest of
                  Inl e \<Rightarrow> Inl e
                | Inr rs \<Rightarrow> Inr (r # rs))))"

fun join :: "pystr \<Rightarrow> pystr list \<Rightarrow> pystr" where
  "join sep [] = []"
| "join sep [x] = x"
| "join sep (x # y # ys) = x @ sep @ join sep (y # ys)"

text \<open>The two messages: U+30D8 U+30C3 U+30C0 ... as in the source.\<close>

definition msg_no_header :: pystr where
  "msg_no_header =
     ascii ''CSV'' @ [12504, 12483, 12480, 12434, 26908, 20986, 12391, 12365, 12414, 12379,
                      12435, 12290]"

definition msg_bad_header :: pystr where
  "msg_bad_header =
     ascii ''CSV'' @ [12504, 12483, 12480, 12364, 19981, 27491, 12391, 12377, 12290, 27424,
                      25613] @ ascii '': ''"

definition missing_fields :: "pystr list \<Rightarrow> pystr list" where
  "missing_fields headers = filter (\<lambda>field. field \<notin> set headers) EXPECTED_FIELDS"

definition load_csv :: "unicode_db \<Rightarrow> pystr list list \<Rightarrow> exn + ScheduleRow list" where
  "load_csv db lines =
     (case fieldnames lines of
        None \<Rightarrow> Inl (ValueError msg_no_header)
      | Some headers \<Rightarrow>
          if missing_fields headers \<noteq> []
          then Inl (ValueError (msg_bad_header @ join (ascii '', '') (missing_fields headers)))
          else load_rows db 2 (DictReader lines))"

section \<open>Date-times\<close>

text \<open>
  A naive \<open>datetime\<close> with seconds and microseconds zero. Python compares two of them
  field by field, the year first.
\<close>

record datetime =
  year :: nat
  month :: nat
  day :: nat
  hour :: nat
  minute :: nat

definition dt_less :: "datetime \<Rightarrow> datetime \<Rightarrow> bool" where
  "dt_less a b \<longleftrightarrow>
     year a < year b \<or> (year a = year b \<and>
     (month a < month b \<or> (month a = month b \<and>
     (day a < day b \<or> (day a = day b \<and>
     (hour a < hour b \<or> (hour a = hour b \<and> minute a < minute b)))))))"

definition dt_le :: "datetime \<Rightarrow> datetime \<Rightarrow> bool" where
  "dt_le a b \<longleftrightarrow>
     year a < year b \<or> (year a = year b \<and>
     (month a < month b \<or> (month a = month b \<and>
     (day a < day b \<or> (day a = day b \<and>
     (hour a < hour b \<or> (hour a = hour b \<and> minute a \<le> minute b)))))))"

subsection \<open>datetime.strptime with the format "%Y-%m-%d %H:%M"\<close>

text \<open>
  \<open>strptime\<close> turns the format into the regular expression
  \<^verbatim>\<open>(?P<Y>\d\d\d\d)-(?P<m>1[0-2]|0[1-9]|[1-9])-(?P<d>3[0-1]|[1-2]\d|0[1-9]|[1-9]| [1-9])\s+(?P<H>2[0-3]|[0-1]\d|\d):(?P<M>[0-5]\d|\d)\<close>
  matches it at the start of the string, raises \<open>ValueError\<close> when there is no match
  or when the match does not reach the end of the string, converts each group with
  \<open>int\<close>, and raises \<open>ValueError\<close> again when the date does not exist.

  A pattern is modelled by the list of its matches, in the order in which the
  backtracking matcher tries them: each is the value read and the rest of the string.
  The first match of the whole expression is the head of the list.
\<close>

type_synonym 'a pattern = "pystr \<Rightarrow> ('a \<times> pystr) list"

definition re_range :: "int \<Rightarrow> int \<Rightarrow> nat pattern" where
  "re_range lo hi s =
     (case s of [] \<Rightarrow> [] | c # r \<Rightarrow> if lo \<le> c \<and> c \<le> hi then [(nat (c - 48), r)] else [])"

text \<open>
  A character that is not a digit: the hyphen, the colon and the space. It adds nothing to
  the number read. A digit that the pattern fixes, as the \<open>1\<close> of \<open>1[0-2]\<close>, is the range
  from that digit to itself, so that it counts with its value.
\<close>

definition re_char :: "int \<Rightarrow> nat pattern" where
  "re_char ch s = (case s of [] \<Rightarrow> [] | c # r \<Rightarrow> if c = ch then [(0, r)] else [])"

definition re_digit :: "unicode_db \<Rightarrow> nat pattern" where
  "re_digit db s =
     (case s of [] \<Rightarrow> [] | c # r \<Rightarrow> (case decimal db c of None \<Rightarrow> [] | Some v \<Rightarrow> [(v, r)]))"

text \<open>Two patterns in sequence, read as a two-digit number.\<close>

definition re_two :: "nat pattern \<Rightarrow> nat pattern \<Rightarrow> nat pattern" where
  "re_two p q s = concat (map (\<lambda>(a, r). map (\<lambda>(b, r'). (10 * a + b, r')) (q r)) (p s))"

definition re_Y :: "unicode_db \<Rightarrow> nat pattern" where
  "re_Y db s =
     concat (map (\<lambda>(a, r). map (\<lambda>(b, r'). (100 * a + b, r')) (re_two (re_digit db) (re_digit db) r))
       (re_two (re_digit db) (re_digit db) s))"

definition re_m :: "nat pattern" where
  "re_m s =
     re_two (re_range 49 49) (re_range 48 50) s @
     re_two (re_range 48 48) (re_range 49 57) s @
     re_range 49 57 s"

definition re_d :: "unicode_db \<Rightarrow> nat pattern" where
  "re_d db s =
     re_two (re_range 51 51) (re_range 48 49) s @
     re_two (re_range 49 50) (re_digit db) s @
     re_two (re_range 48 48) (re_range 49 57) s @
     re_range 49 57 s @
     re_two (re_char 32) (re_range 49 57) s"

definition re_H :: "unicode_db \<Rightarrow> nat pattern" where
  "re_H db s =
     re_two (re_range 50 50) (re_range 48 51) s @
     re_two (re_range 48 49) (re_digit db) s @
     re_digit db s"

definition re_M :: "unicode_db \<Rightarrow> nat pattern" where
  "re_M db s =
     re_two (re_range 48 53) (re_digit db) s @
     re_digit db s"

text \<open>\<open>\s+\<close> is greedy: the longest run of white space first, then shorter ones.\<close>

definition re_spaces :: "pystr \<Rightarrow> pystr list" where
  "re_spaces s = map (\<lambda>k. drop k s) (rev [1 ..< Suc (length (takeWhile py_isspace s))])"

definition strptime_matches :: "unicode_db \<Rightarrow> pystr \<Rightarrow> ((nat \<times> nat \<times> nat \<times> nat \<times> nat) \<times> pystr) list" where
  "strptime_matches db s =
     concat (map (\<lambda>(Y, r1).
     concat (map (\<lambda>(_, r2).
     concat (map (\<lambda>(m, r3).
     concat (map (\<lambda>(_, r4).
     concat (map (\<lambda>(d, r5).
     concat (map (\<lambda>r6.
     concat (map (\<lambda>(H, r7).
     concat (map (\<lambda>(_, r8).
     map (\<lambda>(M, r9). ((Y, m, d, H, M), r9)) (re_M db r8))
       (re_char 58 r7)))
       (re_H db r6)))
       (re_spaces r5)))
       (re_d db r4)))
       (re_char 45 r3)))
       (re_m r2)))
       (re_char 45 r1)))
       (re_Y db s))"

definition is_leap :: "nat \<Rightarrow> bool" where
  "is_leap y \<longleftrightarrow> y mod 4 = 0 \<and> (y mod 100 \<noteq> 0 \<or> y mod 400 = 0)"

definition days_in_month :: "nat \<Rightarrow> nat \<Rightarrow> nat" where
  "days_in_month y m =
     (if m = 2 then (if is_leap y then 29 else 28)
      else if m = 4 \<or> m = 6 \<or> m = 9 \<or> m = 11 then 30 else 31)"

text \<open>\<open>None\<close> stands for the \<open>ValueError\<close> that \<open>strptime\<close> raises.\<close>

definition strptime :: "unicode_db \<Rightarrow> pystr \<Rightarrow> datetime option" where
  "strptime db s =
     (case strptime_matches db s of
        [] \<Rightarrow> None
      | ((Y, m, d, H, M), rest) # _ \<Rightarrow>
          if rest \<noteq> [] then None
          else if Y < 1 \<or> days_in_month Y m < d then None
          else Some \<lparr>year = Y, month = m, day = d, hour = H, minute = M\<rparr>)"

section \<open>Validation of a row\<close>

text \<open>
  The three reasons: \<open>Date\<close> is empty; \<open>Start/End\<close> invalid; \<open>End\<close> must be after \<open>Start\<close>.
\<close>

definition msg_date_empty :: pystr where
  "msg_date_empty = ascii ''Date '' @ [12364, 31354, 12391, 12377]"

definition msg_start_end_invalid :: pystr where
  "msg_start_end_invalid = ascii ''Start/End '' @ [19981, 27491]"

definition msg_end_after_start :: pystr where
  "msg_end_after_start =
     ascii ''End '' @ [12399] @ ascii '' Start '' @
     [12424, 12426, 24460, 12391, 12354, 12427, 24517, 35201, 12364, 12354, 12426, 12414, 12377]"

text \<open>
  \<^verbatim>\<open>
  def _parse_datetimes(self, row):
      if not row.date:
          return None, None, "Date ..."
      if not row.start or not row.end:
          return None, None, "Start/End ..."
      try:
          start_dt = datetime.strptime(f"{row.date} {row.start}", "%Y-%m-%d %H:%M")
          end_dt = datetime.strptime(f"{row.date} {row.end}", "%Y-%m-%d %H:%M")
      except ValueError:
          return None, None, "Start/End ..."
      if end_dt <= start_dt:
          return None, None, "End ..."
      return start_dt, end_dt, None
  \<close>
\<close>

definition parse_datetimes ::
  "unicode_db \<Rightarrow> ScheduleRow \<Rightarrow> datetime option \<times> datetime option \<times> pystr option" where
  "parse_datetimes db row =
     (if date row = [] then (None, None, Some msg_date_empty)
      else if start row = [] \<or> end' row = [] then (None, None, Some msg_start_end_invalid)
      else
        (case strptime db (date row @ [32] @ start row) of
           None \<Rightarrow> (None, None, Some msg_start_end_invalid)
         | Some start_dt \<Rightarrow>
             (case strptime db (date row @ [32] @ end' row) of
                None \<Rightarrow> (None, None, Some msg_start_end_invalid)
              | Some end_dt \<Rightarrow>
                  if dt_le end_dt start_dt then (None, None, Some msg_end_after_start)
                  else (Some start_dt, Some end_dt, None))))"

section \<open>The submission run\<close>

text \<open>\<open>str\<close> of an integer, for the row number and the busy code in a log line.\<close>

fun str_nat :: "nat \<Rightarrow> pystr" where
  "str_nat n = (if n < 10 then [48 + int n] else str_nat (n div 10) @ [48 + int (n mod 10)])"

declare str_nat.simps [simp del]

definition str_int :: "int \<Rightarrow> pystr" where
  "str_int i = (if i < 0 then 45 # str_nat (nat (- i)) else str_nat (nat i))"

text \<open>
  What the run hands to the calendar host for one row. \<open>Start\<close> and \<open>End\<close> are what
  \<open>_parse_datetimes\<close> returned; \<open>Location\<close> and \<open>Body\<close> are set only when not empty.
\<close>

record appointment =
  Subject :: pystr
  Start :: "datetime option"
  End :: "datetime option"
  BusyStatus :: int
  Location :: "pystr option"
  Body :: "pystr option"

text \<open>
  The host is opaque. \<open>Dispatch\<close> tells whether \<open>win32com.client.Dispatch\<close> raises, and
  with which text; \<open>create\<close> stands for the statements from \<open>CreateItem\<close> to \<open>Save\<close>
  of one row: it takes the state of the host and the appointment, and returns the text of
  the exception raised, if any, and the new state of the host.
\<close>

record 'h outlook =
  Dispatch :: "'h \<Rightarrow> pystr option"
  create :: "'h \<Rightarrow> appointment \<Rightarrow> pystr option \<times> 'h"

definition appointment_of ::
  "ScheduleRow \<Rightarrow> datetime option \<Rightarrow> datetime option \<Rightarrow> appointment" where
  "appointment_of row start_dt end_dt =
     \<lparr>Subject = subject row, Start = start_dt, End = end_dt, BusyStatus = busy row,
      Location = (if location row \<noteq> [] then Some (location row) else None),
      Body = (if body row \<noteq> [] then Some (body row) else None)\<rparr>"

text \<open>The log lines; U+884C is the word for row, U+4EF6 U+540D U+306A U+3057 "no subject".\<close>

definition ok_line :: "ScheduleRow \<Rightarrow> pystr" where
  "ok_line row =
     ascii ''[OK] '' @ date row @ [32] @ start row @ [45] @ end' row @ [32] @
     (if subject row \<noteq> [] then subject row else [40, 20214, 21517, 12394, 12375, 41]) @
     ascii '' BusyStatus='' @ str_int (busy row)"

definition ng_line :: "ScheduleRow \<Rightarrow> pystr \<Rightarrow> pystr" where
  "ng_line row reason = ascii ''[NG] '' @ [34892] @ str_int (row_number row) @ [32] @ reason"

definition host_failure :: "pystr \<Rightarrow> pystr" where
  "host_failure exc = ascii ''Outlook'' @ [30331, 37682, 22833, 25943] @ ascii '': '' @ exc"

definition launch_failure_line :: "pystr \<Rightarrow> pystr" where
  "launch_failure_line exc =
     ascii ''[NG] Outlook'' @ [36215, 21205, 12395, 22833, 25943] @ ascii '': '' @ exc"

definition msg_finished :: pystr where
  "msg_finished = [20104, 23450, 30331, 37682, 12434, 32066, 20102]"

definition msg_started :: pystr where
  "msg_started = [20104, 23450, 30331, 37682, 12434, 38283, 22987]"

text \<open>\<open>if error:\<close> holds for a string that is not empty.\<close>

definition truthy :: "pystr option \<Rightarrow> bool" where
  "truthy x = (case x of None \<Rightarrow> False | Some t \<Rightarrow> t \<noteq> [])"

text \<open>
  The loop \<open>for row in self.rows\<close>. The result is the lines logged, the appointments
  handed to the host (one for each attempt to create one) and the state of the host.
\<close>

fun register_rows ::
  "unicode_db \<Rightarrow> 'h outlook \<Rightarrow> 'h \<Rightarrow> ScheduleRow list \<Rightarrow> pystr list \<times> appointment list \<times> 'h" where
  "register_rows db host h [] = ([], [], h)"
| "register_rows db host h (row # rest) =
     (case parse_datetimes db row of (start_dt, end_dt, error) \<Rightarrow>
        if truthy error
        then (case register_rows db host h rest of (lines, calls, h') \<Rightarrow>
                (ng_line row (case error of Some reason \<Rightarrow> reason | None \<Rightarrow> []) # lines, calls, h'))
        else (case create host h (appointment_of row start_dt end_dt) of (raised, h1) \<Rightarrow>
                (case register_rows db host h1 rest of (lines, calls, h') \<Rightarrow>
                   ((case raised of
                       None \<Rightarrow> ok_line row
                     | Some exc \<Rightarrow> ng_line row (host_failure exc)) # lines,
                    appointment_of row start_dt end_dt # calls, h'))))"

text \<open>
  \<open>_register_appointments\<close>: when \<open>Dispatch\<close> raises, one line is logged and the run
  returns; the \<open>finally\<close> clause logs the closing line on every path. The calls
  \<open>CoInitialize\<close> and \<open>CoUninitialize\<close> around it are taken to succeed, and the
  button that the run enables again at its end is not part of the state.
\<close>

definition register_appointments ::
  "unicode_db \<Rightarrow> 'h outlook \<Rightarrow> 'h \<Rightarrow> ScheduleRow list \<Rightarrow> pystr list \<times> appointment list \<times> 'h" where
  "register_appointments db host h rs =
     (case Dispatch host h of
        Some exc \<Rightarrow> ([launch_failure_line exc, msg_finished], [], h)
      | None \<Rightarrow>
          (case register_rows db host h rs of (lines, calls, h') \<Rightarrow>
             (lines @ [msg_finished], calls, h')))"

text \<open>A log line reports a success or a failure by its first four characters.\<close>

definition success_line :: "pystr \<Rightarrow> bool" where
  "success_line l \<longleftrightarrow> take 4 l = ascii ''[OK]''"

definition failure_line :: "pystr \<Rightarrow> bool" where
  "failure_line l \<longleftrightarrow> take 4 l = ascii ''[NG]''"

section \<open>The application state\<close>

type_synonym tree_item = "int \<times> pystr \<times> pystr \<times> pystr \<times> pystr \<times> pystr \<times> int \<times> pystr"

record app =
  csv_path :: "pystr option"
  path_var :: pystr
  rows :: "ScheduleRow list"
  tree :: "tree_item list"
  log_text :: "pystr list"

text \<open>What the user is shown besides the window: nothing, a dialog, or a traceback.\<close>

datatype notice = Quiet | ShowError pystr | ShowWarning | ShowMissingModules | Uncaught exn

definition refresh_tree :: "ScheduleRow list \<Rightarrow> tree_item list" where
  "refresh_tree rs =
     map (\<lambda>(idx, row). (int idx, date row, start row, end' row, subject row, status row,
                         busy row, location row))
       (zip [1 ..< Suc (length rs)] rs)"

definition msg_loaded :: "nat \<Rightarrow> pystr" where
  "msg_loaded n =
     ascii ''CSV'' @ [35501, 36796] @ ascii '': '' @ str_nat n @ [20214, 12434, 21462, 24471]"

text \<open>
  \<open>select_csv\<close>: \<open>file_path\<close> is the answer of the file dialog (empty when cancelled)
  and \<open>read\<close> gives the rows of the file at a path. Only \<open>ValueError\<close> is caught.
\<close>

definition select_csv ::
  "unicode_db \<Rightarrow> (pystr \<Rightarrow> pystr list list) \<Rightarrow> pystr \<Rightarrow> app \<Rightarrow> app \<times> notice" where
  "select_csv db read file_path a =
     (if file_path = [] then (a, Quiet)
      else
        (case load_csv db (read file_path) of
           Inl (ValueError text) \<Rightarrow> (a, ShowError text)
         | Inl AttributeError \<Rightarrow> (a, Uncaught AttributeError)
         | Inr rs \<Rightarrow>
             (a\<lparr>csv_path := Some file_path, path_var := file_path, rows := rs,
                tree := refresh_tree rs, log_text := log_text a @ [msg_loaded (length rs)]\<rparr>,
              Quiet)))"

text \<open>
  \<open>on_register\<close> together with the run it starts; \<open>host\<close> is \<open>None\<close> when the modules
  of the host could not be imported.
\<close>

definition on_register ::
  "unicode_db \<Rightarrow> 'h outlook option \<Rightarrow> 'h \<Rightarrow> app \<Rightarrow> app \<times> notice \<times> appointment list \<times> 'h" where
  "on_register db host h a =
     (if rows a = [] then (a, ShowWarning, [], h)
      else
        (case host of
           None \<Rightarrow> (a, ShowMissingModules, [], h)
         | Some ol \<Rightarrow>
             (case register_appointments db ol h (rows a) of (lines, calls, h') \<Rightarrow>
                (a\<lparr>log_text := log_text a @ [msg_started] @ lines\<rparr>, Quiet, calls, h'))))"

text \<open>
  The entries that \<open>DictReader\<close> puts under field names: the key is a name and the value
  is a string or \<open>None\<close>, never a list.
\<close>

definition named :: "rawrow \<Rightarrow> bool" where
  "named d = list_all (\<lambda>(k, v). k \<noteq> None \<and> (case v of ListVal l \<Rightarrow> False | _ \<Rightarrow> True)) d"

section \<open>Example data\<close>

definition row_0900_1000 :: ScheduleRow where
  "row_0900_1000 =
     \<lparr>row_number = 2, date = ascii ''2024-05-01'', start = ascii ''09:00'',
      end' = ascii ''10:00'', subject = ascii ''Review'', status = ascii ''busy'',
      location = [], body = [], busy = 2\<rparr>"

definition row_1000_0900 :: ScheduleRow where
  "row_1000_0900 =
     \<lparr>row_number = 3, date = ascii ''2024-05-01'', start = ascii ''10:00'',
      end' = ascii ''09:00'', subject = ascii ''Lunch'', status = ascii ''free'',
      location = ascii ''Cafe'', body = [], busy = 0\<rparr>"

definition row_0900_0900 :: ScheduleRow where
  "row_0900_0900 =
     \<lparr>row_number = 5, date = ascii ''2024-05-01'', start = ascii ''09:00'',
      end' = ascii ''09:00'', subject = [], status = [], location = [], body = [], busy = 2\<rparr>"

definition row_no_date :: ScheduleRow where
  "row_no_date =
     \<lparr>row_number = 4, date = [], start = ascii ''09:00'', end' = ascii ''10:00'',
      subject = ascii ''Call'', status = ascii ''ooo'', location = [], body = ascii ''notes'',
      busy = 3\<rparr>"

definition row_1100_1200 :: ScheduleRow where
  "row_1100_1200 =
     \<lparr>row_number = 6, date = ascii ''2024-05-02'', start = ascii ''11:00'',
      end' = ascii ''12:00'', subject = [], status = ascii ''tentative'',
      location = ascii ''Room 2'', body = [], busy = 1\<rparr>"

definition row_1300_1400 :: ScheduleRow where
  "row_1300_1400 =
     \<lparr>row_number = 7, date = ascii ''2024-05-03'', start = ascii ''13:00'',
      end' = ascii ''14:00'', subject = ascii ''Sync'', status = [], location = [],
      body = [], busy = 2\<rparr>"

definition row_1900_2000 :: ScheduleRow where
  "row_1900_2000 =
     \<lparr>row_number = 8, date = ascii ''2024-12-31'', start = ascii ''19:00'',
      end' = ascii ''20:00'', subject = ascii ''Party'', status = ascii ''free'',
      location = [], body = [], busy = 0\<rparr>"

definition row_2000_1900 :: ScheduleRow where
  "row_2000_1900 =
     \<lparr>row_number = 9, date = ascii ''2024-12-31'', start = ascii ''20:00'',
      end' = ascii ''19:00'', subject = ascii ''Party'', status = ascii ''free'',
      location = [], body = [], busy = 0\<rparr>"

text \<open>A host whose state counts the appointments handed to it; the second one fails.\<close>

definition second_fails :: "nat outlook" where
  "second_fails =
     \<lparr>Dispatch = (\<lambda>n. None),
      create = (\<lambda>n ap. (if n = 1 then Some (ascii ''rejected'') else None, Suc n))\<rparr>"

text \<open>A host that cannot be started.\<close>

definition no_outlook :: "nat outlook" where
  "no_outlook =
     \<lparr>Dispatch = (\<lambda>n. Some (ascii ''Invalid class string'')),
      create = (\<lambda>n ap. (None, Suc n))\<rparr>"

definition empty_app :: app where
  "empty_app = \<lparr>csv_path = None, path_var = [], rows = [], tree = [], log_text = []\<rparr>"

definition loaded_app :: app where
  "loaded_app =
     \<lparr>csv_path = Some (ascii ''a.csv''), path_var = ascii ''a.csv'', rows = [row_0900_1000],
      tree = refresh_tree [row_0900_1000], log_text = [msg_loaded 1]\<rparr>"

text \<open>Files, as the rows that \<open>csv.reader\<close> yields.\<close>

definition cells_0900_1000 :: "pystr list" where
  "cells_0900_1000 =
     [ascii ''2024-05-01'', ascii '' 09:00'', ascii ''10:00 '', ascii ''Review'', ascii ''busy'',
      [], []]"

definition file_good :: "pystr list list" where
  "file_good = [EXPECTED_FIELDS, cells_0900_1000]"

definition file_short_header :: "pystr list list" where
  "file_short_header = [[ascii ''Date'', ascii ''Start'', ascii ''end'', ascii ''Body''], cells_0900_1000]"

definition file_empty_line :: "pystr list list" where
  "file_empty_line = [EXPECTED_FIELDS, [], cells_0900_1000]"

definition file_blank_row :: "pystr list list" where
  "file_blank_row = [EXPECTED_FIELDS, [[], [32], [], [], [], [], []], cells_0900_1000]"

definition file_long_blank_row :: "pystr list list" where
  "file_long_blank_row = [EXPECTED_FIELDS, [[], [], [], [], [], [], [], ascii ''x'']]"

definition cells_blank_x :: "pystr list" where
  "cells_blank_x = [[], [32], [], [], [], [], [], ascii ''x'']"

definition file_note_column :: "pystr list list" where
  "file_note_column = [EXPECTED_FIELDS @ [ascii ''Note''], cells_blank_x]"

definition file_surplus_cell :: "pystr list list" where
  "file_surplus_cell = [EXPECTED_FIELDS, cells_blank_x]"

definition read_files :: "pystr \<Rightarrow> pystr list list" where
  "read_files path =
     (if path = ascii ''good.csv'' then file_good
      else if path = ascii ''short.csv'' then file_short_header
      else [])"

section \<open>Properties of the busy-status mapper\<close>

lemma STATUS_MAP_distinct: "distinct (map fst STATUS_MAP)"
  by (simp add: STATUS_MAP_def ascii_def)

lemma STATUS_MAP_codes: "(k, c) \<in> set STATUS_MAP \<Longrightarrow> c \<in> {0, 1, 2, 3, 4}"
  by (auto simp: STATUS_MAP_def)

lemma STATUS_MAP_no_empty_key: "([], c) \<notin> set STATUS_MAP"
  by (simp add: STATUS_MAP_def ascii_def)

lemma map_busy_status_lookup:
  "map_busy_status db v =
     (case map_of STATUS_MAP (lower db (py_strip v)) of Some c \<Rightarrow> c | None \<Rightarrow> 2)"
proof (cases "lower db (py_strip v) = []")
  case True
  have "map_of STATUS_MAP [] = None"
    using STATUS_MAP_no_empty_key by (cases "map_of STATUS_MAP []") (auto dest: map_of_SomeD)
  with True show ?thesis by (simp add: map_busy_status_def)
next
  case False
  then show ?thesis by (simp add: map_busy_status_def)
qed

lemma py_strip_Nil: "py_strip [] = []"
  by (simp add: py_strip_def)

lemma map_busy_status_empty: "lower db [] = [] \<Longrightarrow> map_busy_status db [] = 2"
  by (simp add: map_busy_status_def py_strip_Nil)

lemma db_ok_ascii: "db_ok ascii_db"
  by (simp add: db_ok_def ascii_db_def ascii_lower_def ascii_decimal_def)

text \<open>
  C1. The mapper is a function of its argument (and of the lower-casing of the
  interpreter), defined on every string. When the trimmed, lower-cased status is a key of
  \<open>STATUS_MAP\<close> the result is the code of that key; for every other string it is 2, and
  so it is for the empty string; the result is always one of 0, 1, 2, 3, 4.
\<close>

theorem map_busy_status_total:
  "(\<forall>c. (lower db (py_strip v), c) \<in> set STATUS_MAP \<longrightarrow> map_busy_status db v = c) \<and>
   (lower db (py_strip v) \<notin> fst ` set STATUS_MAP \<longrightarrow> map_busy_status db v = 2) \<and>
   (lower db [] = [] \<longrightarrow> map_busy_status db [] = 2) \<and>
   map_busy_status db v \<in> {0, 1, 2, 3, 4}"
proof (intro conjI allI impI)
  fix c assume "(lower db (py_strip v), c) \<in> set STATUS_MAP"
  then have "map_of STATUS_MAP (lower db (py_strip v)) = Some c"
    using STATUS_MAP_distinct by simp
  then show "map_busy_status db v = c" by (simp add: map_busy_status_lookup)
next
  assume "lower db (py_strip v) \<notin> fst ` set STATUS_MAP"
  then have "map_of STATUS_MAP (lower db (py_strip v)) = None"
    by (simp add: map_of_eq_None_iff)
  then show "map_busy_status db v = 2" by (simp add: map_busy_status_lookup)
next
  assume "lower db [] = []"
  then show "map_busy_status db [] = 2" by (rule map_busy_status_empty)
next
  show "map_busy_status db v \<in> {0, 1, 2, 3, 4}"
  proof (cases "map_of STATUS_MAP (lower db (py_strip v))")
    case None
    then show ?thesis by (simp add: map_busy_status_lookup)
  next
    case (Some c)
    then have "(lower db (py_strip v), c) \<in> set STATUS_MAP" by (rule map_of_SomeD)
    then have "c \<in> {0, 1, 2, 3, 4}" by (rule STATUS_MAP_codes)
    with Some show ?thesis by (simp add: map_busy_status_lookup)
  qed
qed

theorem map_busy_status_total_witness:
  "(lower ascii_db (py_strip (ascii ''  FREE '')), 0) \<in> set STATUS_MAP \<and>
   map_busy_status ascii_db (ascii ''  FREE '') = 0 \<and>
   (lower ascii_db (py_strip [32, 20241, 12415, 12288]), 3) \<in> set STATUS_MAP \<and>
   map_busy_status ascii_db [32, 20241, 12415, 12288] = 3 \<and>
   lower ascii_db (py_strip (ascii ''meeting'')) \<notin> fst ` set STATUS_MAP \<and>
   map_busy_status ascii_db (ascii ''meeting'') = 2 \<and>
   lower ascii_db [] = [] \<and>
   map_busy_status ascii_db [] = 2"
proof -
  have a: "(lower ascii_db (py_strip (ascii ''  FREE '')), 0) \<in> set STATUS_MAP"
    by (simp add: py_strip_def ascii_def py_isspace_def ascii_db_def ascii_lower_def
        STATUS_MAP_def)
  have b: "(lower ascii_db (py_strip [32, 20241, 12415, 12288]), 3) \<in> set STATUS_MAP"
    by (simp add: py_strip_def ascii_def py_isspace_def ascii_db_def ascii_lower_def
        STATUS_MAP_def)
  have c: "lower ascii_db (py_strip (ascii ''meeting'')) \<notin> fst ` set STATUS_MAP"
    by (simp add: py_strip_def ascii_def py_isspace_def ascii_db_def ascii_lower_def
        STATUS_MAP_def)
  have d: "lower ascii_db [] = []"
    by (simp add: ascii_db_def ascii_lower_def)
  show ?thesis
    using a b c d map_busy_status_total [of ascii_db "ascii ''  FREE ''"]
      map_busy_status_total [of ascii_db "[32, 20241, 12415, 12288]"]
      map_busy_status_total [of ascii_db "ascii ''meeting''"]
    by blast
qed

section \<open>Properties of the validation of a row\<close>

lemmas re_defs = strptime_def strptime_matches_def re_Y_def re_m_def re_d_def re_H_def re_M_def
  re_two_def re_digit_def re_char_def re_range_def re_spaces_def days_in_month_def is_leap_def

lemma dt_less_iff: "dt_less a b \<longleftrightarrow> \<not> dt_le b a"
  by (auto simp: dt_less_def dt_le_def)

lemma db_ok_digits:
  assumes "db_ok db"
  shows "decimal db 48 = Some 0" "decimal db 49 = Some 1" "decimal db 50 = Some 2"
    "decimal db 51 = Some 3" "decimal db 52 = Some 4" "decimal db 53 = Some 5"
    "decimal db 54 = Some 6" "decimal db 55 = Some 7" "decimal db 56 = Some 8"
    "decimal db 57 = Some 9"
  using assms by (simp_all add: db_ok_def)

lemma strptime_0900:
  assumes "db_ok db"
  shows "strptime db (ascii ''2024-05-01'' @ [32] @ ascii ''09:00'') =
     Some \<lparr>year = 2024, month = 5, day = 1, hour = 9, minute = 0\<rparr>"
  by (simp add: re_defs ascii_def py_isspace_def db_ok_digits [OF assms])

lemma strptime_1000:
  assumes "db_ok db"
  shows "strptime db (ascii ''2024-05-01'' @ [32] @ ascii ''10:00'') =
     Some \<lparr>year = 2024, month = 5, day = 1, hour = 10, minute = 0\<rparr>"
  by (simp add: re_defs ascii_def py_isspace_def db_ok_digits [OF assms])

lemma strptime_1100:
  assumes "db_ok db"
  shows "strptime db (ascii ''2024-05-02'' @ [32] @ ascii ''11:00'') =
     Some \<lparr>year = 2024, month = 5, day = 2, hour = 11, minute = 0\<rparr>"
  by (simp add: re_defs ascii_def py_isspace_def db_ok_digits [OF assms])

lemma strptime_1200:
  assumes "db_ok db"
  shows "strptime db (ascii ''2024-05-02'' @ [32] @ ascii ''12:00'') =
     Some \<lparr>year = 2024, month = 5, day = 2, hour = 12, minute = 0\<rparr>"
  by (simp add: re_defs ascii_def py_isspace_def db_ok_digits [OF assms])

lemma strptime_1300:
  assumes "db_ok db"
  shows "strptime db (ascii ''2024-05-03'' @ [32] @ ascii ''13:00'') =
     Some \<lparr>year = 2024, month = 5, day = 3, hour = 13, minute = 0\<rparr>"
  by (simp add: re_defs ascii_def py_isspace_def db_ok_digits [OF assms])

lemma strptime_1400:
  assumes "db_ok db"
  shows "strptime db (ascii ''2024-05-03'' @ [32] @ ascii ''14:00'') =
     Some \<lparr>year = 2024, month = 5, day = 3, hour = 14, minute = 0\<rparr>"
  by (simp add: re_defs ascii_def py_isspace_def db_ok_digits [OF assms])

lemma strptime_1900:
  assumes "db_ok db"
  shows "strptime db (ascii ''2024-12-31'' @ [32] @ ascii ''19:00'') =
     Some \<lparr>year = 2024, month = 12, day = 31, hour = 19, minute = 0\<rparr>"
  by (simp add: re_defs ascii_def py_isspace_def db_ok_digits [OF assms])

lemma strptime_2000:
  assumes "db_ok db"
  shows "strptime db (ascii ''2024-12-31'' @ [32] @ ascii ''20:00'') =
     Some \<lparr>year = 2024, month = 12, day = 31, hour = 20, minute = 0\<rparr>"
  by (simp add: re_defs ascii_def py_isspace_def db_ok_digits [OF assms])

text \<open>
  The tens digits of month, day and hour count; a day that the month does not have, an
  hour 24, a minute 60 and the year 0 are refused; one digit is enough for month, day,
  hour and minute; nothing may follow the minute.
\<close>

lemma strptime_examples:
  "strptime ascii_db (ascii ''2024-10-30 23:59'') =
     Some \<lparr>year = 2024, month = 10, day = 30, hour = 23, minute = 59\<rparr>"
  "strptime ascii_db (ascii ''2024-2-9 7:5'') =
     Some \<lparr>year = 2024, month = 2, day = 9, hour = 7, minute = 5\<rparr>"
  "strptime ascii_db (ascii ''2024-02-29 00:00'') =
     Some \<lparr>year = 2024, month = 2, day = 29, hour = 0, minute = 0\<rparr>"
  "strptime ascii_db (ascii ''2023-02-29 09:00'') = None"
  "strptime ascii_db (ascii ''2024-04-31 09:00'') = None"
  "strptime ascii_db (ascii ''2024-13-01 09:00'') = None"
  "strptime ascii_db (ascii ''2024-05-01 24:00'') = None"
  "strptime ascii_db (ascii ''2024-05-01 09:60'') = None"
  "strptime ascii_db (ascii ''0000-05-01 09:00'') = None"
  "strptime ascii_db (ascii ''2024-05-01 09:00 '') = None"
  "strptime ascii_db (ascii ''2024-05-01 '') = None"
  by code_simp+

lemma parse_datetimes_ok:
  assumes "date row \<noteq> []" and "start row \<noteq> []" and "end' row \<noteq> []"
    and "strptime db (date row @ [32] @ start row) = Some start_dt"
    and "strptime db (date row @ [32] @ end' row) = Some end_dt"
    and "dt_less start_dt end_dt"
  shows "parse_datetimes db row = (Some start_dt, Some end_dt, None)"
  using assms by (simp add: parse_datetimes_def dt_less_iff)

lemma parse_datetimes_order:
  assumes "date row \<noteq> []" and "start row \<noteq> []" and "end' row \<noteq> []"
    and "strptime db (date row @ [32] @ start row) = Some start_dt"
    and "strptime db (date row @ [32] @ end' row) = Some end_dt"
    and "dt_le end_dt start_dt"
  shows "parse_datetimes db row = (None, None, Some msg_end_after_start)"
  using assms by (simp add: parse_datetimes_def)

lemma parse_datetimes_no_date:
  "date row = [] \<Longrightarrow> parse_datetimes db row = (None, None, Some msg_date_empty)"
  by (simp add: parse_datetimes_def)

lemma register_rows_rejected:
  assumes "parse_datetimes db row = (None, None, Some reason)" and "reason \<noteq> []"
  shows "register_rows db host h (row # rest) =
     (case register_rows db host h rest of
        (lines, calls, h') \<Rightarrow> (ng_line row reason # lines, calls, h'))"
  using assms by (simp add: truthy_def)

lemma register_rows_accepted:
  assumes "parse_datetimes db row = (Some start_dt, Some end_dt, None)"
  shows "register_rows db host h (row # rest) =
     (case create host h (appointment_of row (Some start_dt) (Some end_dt)) of
        (raised, h1) \<Rightarrow>
          (case register_rows db host h1 rest of
             (lines, calls, h') \<Rightarrow>
               ((case raised of
                   None \<Rightarrow> ok_line row
                 | Some exc \<Rightarrow> ng_line row (host_failure exc)) # lines,
                appointment_of row (Some start_dt) (Some end_dt) # calls, h')))"
  using assms by (simp add: truthy_def)

lemma msg_end_after_start_nonempty: "msg_end_after_start \<noteq> []"
  by (simp add: msg_end_after_start_def ascii_def)

lemma msg_date_empty_nonempty: "msg_date_empty \<noteq> []"
  by (simp add: msg_date_empty_def ascii_def)

text \<open>
  C4. A row whose date, start and end are not empty, whose date and start, and date and
  end, joined by a space, parse under \<open>%Y-%m-%d %H:%M\<close>, the end strictly later than the
  start, is valid: the validation returns the two date-times and no reason. With date
  2024-05-01, start 09:00 and end 10:00 these are 2024-05-01 09:00 and 2024-05-01 10:00.
\<close>

theorem parse_datetimes_valid:
  "(date row \<noteq> [] \<and> start row \<noteq> [] \<and> end' row \<noteq> [] \<and>
    strptime db (date row @ [32] @ start row) = Some start_dt \<and>
    strptime db (date row @ [32] @ end' row) = Some end_dt \<and>
    dt_less start_dt end_dt \<longrightarrow>
    parse_datetimes db row = (Some start_dt, Some end_dt, None)) \<and>
   (db_ok db \<and> date row = ascii ''2024-05-01'' \<and> start row = ascii ''09:00'' \<and>
    end' row = ascii ''10:00'' \<longrightarrow>
    parse_datetimes db row =
      (Some \<lparr>year = 2024, month = 5, day = 1, hour = 9, minute = 0\<rparr>,
       Some \<lparr>year = 2024, month = 5, day = 1, hour = 10, minute = 0\<rparr>, None))"
proof (intro conjI impI)
  assume "date row \<noteq> [] \<and> start row \<noteq> [] \<and> end' row \<noteq> [] \<and>
    strptime db (date row @ [32] @ start row) = Some start_dt \<and>
    strptime db (date row @ [32] @ end' row) = Some end_dt \<and>
    dt_less start_dt end_dt"
  then show "parse_datetimes db row = (Some start_dt, Some end_dt, None)"
    by (simp add: parse_datetimes_ok)
next
  assume a: "db_ok db \<and> date row = ascii ''2024-05-01'' \<and> start row = ascii ''09:00'' \<and>
    end' row = ascii ''10:00''"
  then have ok: "db_ok db" by simp
  have ne: "date row \<noteq> []" "start row \<noteq> []" "end' row \<noteq> []"
    using a by (simp_all add: ascii_def)
  have s: "strptime db (date row @ [32] @ start row) =
      Some \<lparr>year = 2024, month = 5, day = 1, hour = 9, minute = 0\<rparr>"
    using a strptime_0900 [OF ok] by simp
  have e: "strptime db (date row @ [32] @ end' row) =
      Some \<lparr>year = 2024, month = 5, day = 1, hour = 10, minute = 0\<rparr>"
    using a strptime_1000 [OF ok] by simp
  have l: "dt_less \<lparr>year = 2024, month = 5, day = 1, hour = 9, minute = 0\<rparr>
                   \<lparr>year = 2024, month = 5, day = 1, hour = 10, minute = 0\<rparr>"
    by (simp add: dt_less_def)
  show "parse_datetimes db row =
      (Some \<lparr>year = 2024, month = 5, day = 1, hour = 9, minute = 0\<rparr>,
       Some \<lparr>year = 2024, month = 5, day = 1, hour = 10, minute = 0\<rparr>, None)"
    by (rule parse_datetimes_ok [OF ne s e l])
qed

theorem parse_datetimes_valid_witness:
  "db_ok ascii_db \<and> date row_0900_1000 = ascii ''2024-05-01'' \<and>
   start row_0900_1000 = ascii ''09:00'' \<and> end' row_0900_1000 = ascii ''10:00'' \<and>
   parse_datetimes ascii_db row_0900_1000 =
     (Some \<lparr>year = 2024, month = 5, day = 1, hour = 9, minute = 0\<rparr>,
      Some \<lparr>year = 2024, month = 5, day = 1, hour = 10, minute = 0\<rparr>, None) \<and>
   date row_1900_2000 \<noteq> [] \<and> start row_1900_2000 \<noteq> [] \<and> end' row_1900_2000 \<noteq> [] \<and>
   strptime ascii_db (date row_1900_2000 @ [32] @ start row_1900_2000) =
     Some \<lparr>year = 2024, month = 12, day = 31, hour = 19, minute = 0\<rparr> \<and>
   strptime ascii_db (date row_1900_2000 @ [32] @ end' row_1900_2000) =
     Some \<lparr>year = 2024, month = 12, day = 31, hour = 20, minute = 0\<rparr> \<and>
   dt_less \<lparr>year = 2024, month = 12, day = 31, hour = 19, minute = 0\<rparr>
           \<lparr>year = 2024, month = 12, day = 31, hour = 20, minute = 0\<rparr> \<and>
   parse_datetimes ascii_db row_1900_2000 =
     (Some \<lparr>year = 2024, month = 12, day = 31, hour = 19, minute = 0\<rparr>,
      Some \<lparr>year = 2024, month = 12, day = 31, hour = 20, minute = 0\<rparr>, None)"
proof -
  let ?s = "\<lparr>year = 2024, month = 12, day = 31, hour = 19, minute = 0\<rparr>"
  let ?e = "\<lparr>year = 2024, month = 12, day = 31, hour = 20, minute = 0\<rparr>"
  have d: "date row_0900_1000 = ascii ''2024-05-01''" "start row_0900_1000 = ascii ''09:00''"
    "end' row_0900_1000 = ascii ''10:00''"
    by (simp_all add: row_0900_1000_def)
  have n: "date row_1900_2000 \<noteq> []" "start row_1900_2000 \<noteq> []" "end' row_1900_2000 \<noteq> []"
    by (simp_all add: row_1900_2000_def ascii_def)
  have s: "strptime ascii_db (date row_1900_2000 @ [32] @ start row_1900_2000) = Some ?s"
    using strptime_1900 [OF db_ok_ascii] by (simp add: row_1900_2000_def)
  have e: "strptime ascii_db (date row_1900_2000 @ [32] @ end' row_1900_2000) = Some ?e"
    using strptime_2000 [OF db_ok_ascii] by (simp add: row_1900_2000_def)
  have l: "dt_less ?s ?e"
    by (simp add: dt_less_def)
  show ?thesis
    using d n s e l db_ok_ascii
      parse_datetimes_valid [of row_0900_1000 ascii_db]
      parse_datetimes_valid [of row_1900_2000 ascii_db ?s ?e]
    by blast
qed

text \<open>
  C5. A row with a date, a start and an end that parse, the end not strictly later than
  the start (equal included), is rejected with the reason that the end must be after the
  start and no date-time; in the run it gets a failure line, nothing is handed to the
  host for it, and the run goes on with the rows that follow.
\<close>

theorem end_not_after_start:
  assumes "date row \<noteq> []" and "start row \<noteq> []" and "end' row \<noteq> []"
    and "strptime db (date row @ [32] @ start row) = Some start_dt"
    and "strptime db (date row @ [32] @ end' row) = Some end_dt"
    and "\<not> dt_less start_dt end_dt"
  shows "parse_datetimes db row = (None, None, Some msg_end_after_start) \<and>
    register_rows db host h (row # rest) =
      (case register_rows db host h rest of
         (lines, calls, h') \<Rightarrow> (ng_line row msg_end_after_start # lines, calls, h'))"
proof -
  have le: "dt_le end_dt start_dt"
    using assms(6) by (simp add: dt_less_iff)
  have p: "parse_datetimes db row = (None, None, Some msg_end_after_start)"
    by (rule parse_datetimes_order [OF assms(1-5) le])
  show ?thesis
    by (intro conjI) (rule p, rule register_rows_rejected [OF p msg_end_after_start_nonempty])
qed

theorem end_not_after_start_witness:
  "parse_datetimes ascii_db row_1000_0900 = (None, None, Some msg_end_after_start) \<and>
   parse_datetimes ascii_db row_0900_0900 = (None, None, Some msg_end_after_start) \<and>
   parse_datetimes ascii_db row_2000_1900 = (None, None, Some msg_end_after_start) \<and>
   register_rows ascii_db second_fails 0 [row_1000_0900, row_0900_0900, row_2000_1900] =
     ([ng_line row_1000_0900 msg_end_after_start, ng_line row_0900_0900 msg_end_after_start,
       ng_line row_2000_1900 msg_end_after_start],
      [], 0)"
proof -
  let ?nine = "\<lparr>year = 2024, month = 5, day = 1, hour = 9, minute = 0\<rparr>"
  let ?ten = "\<lparr>year = 2024, month = 5, day = 1, hour = 10, minute = 0\<rparr>"
  let ?nineteen = "\<lparr>year = 2024, month = 12, day = 31, hour = 19, minute = 0\<rparr>"
  let ?twenty = "\<lparr>year = 2024, month = 12, day = 31, hour = 20, minute = 0\<rparr>"
  have a: "date row_1000_0900 \<noteq> []" "start row_1000_0900 \<noteq> []" "end' row_1000_0900 \<noteq> []"
    by (simp_all add: row_1000_0900_def ascii_def)
  have as: "strptime ascii_db (date row_1000_0900 @ [32] @ start row_1000_0900) = Some ?ten"
    using strptime_1000 [OF db_ok_ascii] by (simp add: row_1000_0900_def)
  have ae: "strptime ascii_db (date row_1000_0900 @ [32] @ end' row_1000_0900) = Some ?nine"
    using strptime_0900 [OF db_ok_ascii] by (simp add: row_1000_0900_def)
  have al: "\<not> dt_less ?ten ?nine"
    by (simp add: dt_less_def)
  have b: "date row_0900_0900 \<noteq> []" "start row_0900_0900 \<noteq> []" "end' row_0900_0900 \<noteq> []"
    by (simp_all add: row_0900_0900_def ascii_def)
  have bs: "strptime ascii_db (date row_0900_0900 @ [32] @ start row_0900_0900) = Some ?nine"
    using strptime_0900 [OF db_ok_ascii] by (simp add: row_0900_0900_def)
  have be: "strptime ascii_db (date row_0900_0900 @ [32] @ end' row_0900_0900) = Some ?nine"
    using strptime_0900 [OF db_ok_ascii] by (simp add: row_0900_0900_def)
  have bl: "\<not> dt_less ?nine ?nine"
    by (simp add: dt_less_def)
  have c: "date row_2000_1900 \<noteq> []" "start row_2000_1900 \<noteq> []" "end' row_2000_1900 \<noteq> []"
    by (simp_all add: row_2000_1900_def ascii_def)
  have cs: "strptime ascii_db (date row_2000_1900 @ [32] @ start row_2000_1900) = Some ?twenty"
    using strptime_2000 [OF db_ok_ascii] by (simp add: row_2000_1900_def)
  have ce: "strptime ascii_db (date row_2000_1900 @ [32] @ end' row_2000_1900) = Some ?nineteen"
    using strptime_1900 [OF db_ok_ascii] by (simp add: row_2000_1900_def)
  have cl: "\<not> dt_less ?twenty ?nineteen"
    by (simp add: dt_less_def)
  note first = end_not_after_start [OF a as ae al, of second_fails 0
      "[row_0900_0900, row_2000_1900]"]
  note second = end_not_after_start [OF b bs be bl, of second_fails 0 "[row_2000_1900]"]
  note third = end_not_after_start [OF c cs ce cl, of second_fails 0 "[]"]
  show ?thesis
    using first second third by (simp del: register_rows.simps(2))
qed

text \<open>
  C6. A row whose date is empty is rejected with the reason that the date is empty,
  whatever its other fields are; in the run it gets a failure line, nothing is handed to
  the host for it, and the run goes on with the rows that follow.
\<close>

theorem empty_date_rejected:
  assumes "date row = []"
  shows "parse_datetimes db row = (None, None, Some msg_date_empty) \<and>
    register_rows db host h (row # rest) =
      (case register_rows db host h rest of
         (lines, calls, h') \<Rightarrow> (ng_line row msg_date_empty # lines, calls, h'))"
proof -
  have p: "parse_datetimes db row = (None, None, Some msg_date_empty)"
    using assms by (rule parse_datetimes_no_date)
  show ?thesis
    by (intro conjI) (rule p, rule register_rows_rejected [OF p msg_date_empty_nonempty])
qed

theorem empty_date_rejected_witness:
  "date row_no_date = [] \<and>
   parse_datetimes ascii_db row_no_date = (None, None, Some msg_date_empty) \<and>
   register_rows ascii_db second_fails 0 [row_no_date] =
     ([ng_line row_no_date msg_date_empty], [], 0)"
proof -
  have d: "date row_no_date = []"
    by (simp add: row_no_date_def)
  show ?thesis
    using d empty_date_rejected [OF d, of ascii_db second_fails 0 "[]"]
    by (simp del: register_rows.simps(2))
qed

section \<open>Properties of the submission run\<close>

lemma failure_line_launch: "failure_line (launch_failure_line exc)"
  by (simp add: failure_line_def launch_failure_line_def ascii_def)

lemma success_line_launch: "\<not> success_line (launch_failure_line exc)"
  by (simp add: success_line_def launch_failure_line_def ascii_def)

lemma failure_line_finished: "\<not> failure_line msg_finished"
  by (simp add: failure_line_def msg_finished_def ascii_def)

lemma success_line_finished: "\<not> success_line msg_finished"
  by (simp add: success_line_def msg_finished_def ascii_def)

lemma success_line_ok: "success_line (ok_line row)"
  by (simp add: success_line_def ok_line_def ascii_def)

lemma failure_line_ok: "\<not> failure_line (ok_line row)"
  by (simp add: failure_line_def ok_line_def ascii_def)

lemma failure_line_ng: "failure_line (ng_line row reason)"
  by (simp add: failure_line_def ng_line_def ascii_def)

lemma success_line_ng: "\<not> success_line (ng_line row reason)"
  by (simp add: success_line_def ng_line_def ascii_def)

lemma register_rows_one_line_each:
  "length (fst (register_rows db host h rs)) = length rs"
proof (induction rs arbitrary: h)
  case Nil
  show ?case by simp
next
  case (Cons row rest)
  obtain start_dt end_dt error where p: "parse_datetimes db row = (start_dt, end_dt, error)"
    by (cases "parse_datetimes db row") auto
  obtain raised h1 where c: "create host h (appointment_of row start_dt end_dt) = (raised, h1)"
    by (cases "create host h (appointment_of row start_dt end_dt)") auto
  obtain l1 c1 g1 where r1: "register_rows db host h rest = (l1, c1, g1)"
    by (cases "register_rows db host h rest") auto
  obtain l2 c2 g2 where r2: "register_rows db host h1 rest = (l2, c2, g2)"
    by (cases "register_rows db host h1 rest") auto
  have "length l1 = length rest"
    using Cons.IH [of h] r1 by simp
  moreover have "length l2 = length rest"
    using Cons.IH [of h1] r2 by simp
  ultimately show ?case
    using p c r1 r2 by simp
qed

text \<open>
  C7. When the host cannot be started, the run stops at once: nothing is handed to the
  host for any row, the host is left as it was, and the log gets one failure line,
  followed only by the closing line that every run logs.
\<close>

theorem host_unavailable_aborts:
  assumes "Dispatch host h = Some exc"
  shows "register_appointments db host h rs = ([launch_failure_line exc, msg_finished], [], h) \<and>
    fst (snd (register_appointments db host h rs)) = [] \<and>
    filter failure_line (fst (register_appointments db host h rs)) = [launch_failure_line exc] \<and>
    filter success_line (fst (register_appointments db host h rs)) = []"
  using assms
  by (simp add: register_appointments_def failure_line_launch success_line_launch
      failure_line_finished success_line_finished)

theorem host_unavailable_aborts_witness:
  "Dispatch no_outlook 0 = Some (ascii ''Invalid class string'') \<and>
   register_appointments ascii_db no_outlook 0 [row_0900_1000, row_1100_1200] =
     ([launch_failure_line (ascii ''Invalid class string''), msg_finished], [], 0)"
proof -
  have d: "Dispatch no_outlook 0 = Some (ascii ''Invalid class string'')"
    by (simp add: no_outlook_def)
  show ?thesis
    using d host_unavailable_aborts [OF d, of ascii_db "[row_0900_1000, row_1100_1200]"]
    by simp
qed

text \<open>
  C8. A failure of the host for one row stays with that row. Whatever rows follow a valid
  row, when the host fails for it the run logs the failure line of that row and goes on
  with the following rows from the state the host is then in, exactly as it does after a
  success; these rows are treated as in any run, further failures included. Every row of
  a run gets one line, and a run that could start ends with the closing line. So for three
  valid rows, the host failing for the second only, the log is the success line of the
  first row, the failure line of the second, the success line of the third and the closing
  line, in this order: two lines report a success and one a failure.
\<close>

theorem host_failure_isolated:
  "(parse_datetimes db row = (Some start_dt, Some end_dt, None) \<and>
    create host h (appointment_of row (Some start_dt) (Some end_dt)) = (Some exc, hn) \<longrightarrow>
    register_rows db host h (row # rest) =
      (case register_rows db host hn rest of
         (lines, calls, h') \<Rightarrow>
           (ng_line row (host_failure exc) # lines,
            appointment_of row (Some start_dt) (Some end_dt) # calls, h'))) \<and>
   (parse_datetimes db row = (Some start_dt, Some end_dt, None) \<and>
    create host h (appointment_of row (Some start_dt) (Some end_dt)) = (None, hn) \<longrightarrow>
    register_rows db host h (row # rest) =
      (case register_rows db host hn rest of
         (lines, calls, h') \<Rightarrow>
           (ok_line row # lines,
            appointment_of row (Some start_dt) (Some end_dt) # calls, h'))) \<and>
   length (fst (register_rows db host h rs)) = length rs \<and>
   (Dispatch host h = None \<longrightarrow>
    fst (register_appointments db host h rs) =
      fst (register_rows db host h rs) @ [msg_finished]) \<and>
   (Dispatch host ga = None \<and>
    parse_datetimes db ra = (Some sa, Some ea, None) \<and>
    parse_datetimes db rb = (Some sb, Some eb, None) \<and>
    parse_datetimes db rc = (Some sc, Some ec, None) \<and>
    create host ga (appointment_of ra (Some sa) (Some ea)) = (None, gb) \<and>
    create host gb (appointment_of rb (Some sb) (Some eb)) = (Some excb, gc) \<and>
    create host gc (appointment_of rc (Some sc) (Some ec)) = (None, gd) \<longrightarrow>
    register_appointments db host ga [ra, rb, rc] =
      ([ok_line ra, ng_line rb (host_failure excb), ok_line rc, msg_finished],
       [appointment_of ra (Some sa) (Some ea), appointment_of rb (Some sb) (Some eb),
        appointment_of rc (Some sc) (Some ec)], gd) \<and>
    filter success_line (fst (register_appointments db host ga [ra, rb, rc])) =
      [ok_line ra, ok_line rc] \<and>
    filter failure_line (fst (register_appointments db host ga [ra, rb, rc])) =
      [ng_line rb (host_failure excb)])"
proof -
  have failing: "parse_datetimes db row = (Some start_dt, Some end_dt, None) \<and>
    create host h (appointment_of row (Some start_dt) (Some end_dt)) = (Some exc, hn) \<longrightarrow>
    register_rows db host h (row # rest) =
      (case register_rows db host hn rest of
         (lines, calls, h') \<Rightarrow>
           (ng_line row (host_failure exc) # lines,
            appointment_of row (Some start_dt) (Some end_dt) # calls, h'))"
  proof (rule impI)
    assume a: "parse_datetimes db row = (Some start_dt, Some end_dt, None) \<and>
      create host h (appointment_of row (Some start_dt) (Some end_dt)) = (Some exc, hn)"
    then have p: "parse_datetimes db row = (Some start_dt, Some end_dt, None)" by simp
    show "register_rows db host h (row # rest) =
      (case register_rows db host hn rest of
         (lines, calls, h') \<Rightarrow>
           (ng_line row (host_failure exc) # lines,
            appointment_of row (Some start_dt) (Some end_dt) # calls, h'))"
      using a by (simp del: register_rows.simps(2) add: register_rows_accepted [OF p])
  qed
  have passing: "parse_datetimes db row = (Some start_dt, Some end_dt, None) \<and>
    create host h (appointment_of row (Some start_dt) (Some end_dt)) = (None, hn) \<longrightarrow>
    register_rows db host h (row # rest) =
      (case register_rows db host hn rest of
         (lines, calls, h') \<Rightarrow>
           (ok_line row # lines,
            appointment_of row (Some start_dt) (Some end_dt) # calls, h'))"
  proof (rule impI)
    assume a: "parse_datetimes db row = (Some start_dt, Some end_dt, None) \<and>
      create host h (appointment_of row (Some start_dt) (Some end_dt)) = (None, hn)"
    then have p: "parse_datetimes db row = (Some start_dt, Some end_dt, None)" by simp
    show "register_rows db host h (row # rest) =
      (case register_rows db host hn rest of
         (lines, calls, h') \<Rightarrow>
           (ok_line row # lines,
            appointment_of row (Some start_dt) (Some end_dt) # calls, h'))"
      using a by (simp del: register_rows.simps(2) add: register_rows_accepted [OF p])
  qed
  have each: "length (fst (register_rows db host h rs)) = length rs"
    by (rule register_rows_one_line_each)
  have closing: "Dispatch host h = None \<longrightarrow>
    fst (register_appointments db host h rs) =
      fst (register_rows db host h rs) @ [msg_finished]"
    by (simp add: register_appointments_def split: prod.splits)
  have three: "Dispatch host ga = None \<and>
    parse_datetimes db ra = (Some sa, Some ea, None) \<and>
    parse_datetimes db rb = (Some sb, Some eb, None) \<and>
    parse_datetimes db rc = (Some sc, Some ec, None) \<and>
    create host ga (appointment_of ra (Some sa) (Some ea)) = (None, gb) \<and>
    create host gb (appointment_of rb (Some sb) (Some eb)) = (Some excb, gc) \<and>
    create host gc (appointment_of rc (Some sc) (Some ec)) = (None, gd) \<longrightarrow>
    register_appointments db host ga [ra, rb, rc] =
      ([ok_line ra, ng_line rb (host_failure excb), ok_line rc, msg_finished],
       [appointment_of ra (Some sa) (Some ea), appointment_of rb (Some sb) (Some eb),
        appointment_of rc (Some sc) (Some ec)], gd) \<and>
    filter success_line (fst (register_appointments db host ga [ra, rb, rc])) =
      [ok_line ra, ok_line rc] \<and>
    filter failure_line (fst (register_appointments db host ga [ra, rb, rc])) =
      [ng_line rb (host_failure excb)]"
  proof (rule impI)
    assume a: "Dispatch host ga = None \<and>
      parse_datetimes db ra = (Some sa, Some ea, None) \<and>
      parse_datetimes db rb = (Some sb, Some eb, None) \<and>
      parse_datetimes db rc = (Some sc, Some ec, None) \<and>
      create host ga (appointment_of ra (Some sa) (Some ea)) = (None, gb) \<and>
      create host gb (appointment_of rb (Some sb) (Some eb)) = (Some excb, gc) \<and>
      create host gc (appointment_of rc (Some sc) (Some ec)) = (None, gd)"
    then have pa: "parse_datetimes db ra = (Some sa, Some ea, None)"
      and pb: "parse_datetimes db rb = (Some sb, Some eb, None)"
      and pc: "parse_datetimes db rc = (Some sc, Some ec, None)"
      by simp_all
    have rows3: "register_rows db host ga [ra, rb, rc] =
        ([ok_line ra, ng_line rb (host_failure excb), ok_line rc],
         [appointment_of ra (Some sa) (Some ea), appointment_of rb (Some sb) (Some eb),
          appointment_of rc (Some sc) (Some ec)], gd)"
      using a
      by (simp del: register_rows.simps(2)
          add: register_rows_accepted [OF pa] register_rows_accepted [OF pb]
          register_rows_accepted [OF pc])
    have run: "register_appointments db host ga [ra, rb, rc] =
        ([ok_line ra, ng_line rb (host_failure excb), ok_line rc, msg_finished],
         [appointment_of ra (Some sa) (Some ea), appointment_of rb (Some sb) (Some eb),
          appointment_of rc (Some sc) (Some ec)], gd)"
      using a rows3 by (simp add: register_appointments_def)
    show "register_appointments db host ga [ra, rb, rc] =
        ([ok_line ra, ng_line rb (host_failure excb), ok_line rc, msg_finished],
         [appointment_of ra (Some sa) (Some ea), appointment_of rb (Some sb) (Some eb),
          appointment_of rc (Some sc) (Some ec)], gd) \<and>
      filter success_line (fst (register_appointments db host ga [ra, rb, rc])) =
        [ok_line ra, ok_line rc] \<and>
      filter failure_line (fst (register_appointments db host ga [ra, rb, rc])) =
        [ng_line rb (host_failure excb)]"
      unfolding run
      by (simp add: success_line_ok failure_line_ok failure_line_ng success_line_ng
          failure_line_finished success_line_finished)
  qed
  show ?thesis
    by (intro conjI) (rule failing, rule passing, rule each, rule closing, rule three)
qed

theorem host_failure_isolated_witness:
  "Dispatch second_fails 0 = None \<and>
   parse_datetimes ascii_db row_0900_1000 =
     (Some \<lparr>year = 2024, month = 5, day = 1, hour = 9, minute = 0\<rparr>,
      Some \<lparr>year = 2024, month = 5, day = 1, hour = 10, minute = 0\<rparr>, None) \<and>
   parse_datetimes ascii_db row_1100_1200 =
     (Some \<lparr>year = 2024, month = 5, day = 2, hour = 11, minute = 0\<rparr>,
      Some \<lparr>year = 2024, month = 5, day = 2, hour = 12, minute = 0\<rparr>, None) \<and>
   parse_datetimes ascii_db row_1300_1400 =
     (Some \<lparr>year = 2024, month = 5, day = 3, hour = 13, minute = 0\<rparr>,
      Some \<lparr>year = 2024, month = 5, day = 3, hour = 14, minute = 0\<rparr>, None) \<and>
   register_appointments ascii_db second_fails 0 [row_0900_1000, row_1100_1200, row_1300_1400] =
     ([ok_line row_0900_1000, ng_line row_1100_1200 (host_failure (ascii ''rejected'')),
       ok_line row_1300_1400, msg_finished],
      [appointment_of row_0900_1000
         (Some \<lparr>year = 2024, month = 5, day = 1, hour = 9, minute = 0\<rparr>)
         (Some \<lparr>year = 2024, month = 5, day = 1, hour = 10, minute = 0\<rparr>),
       appointment_of row_1100_1200
         (Some \<lparr>year = 2024, month = 5, day = 2, hour = 11, minute = 0\<rparr>)
         (Some \<lparr>year = 2024, month = 5, day = 2, hour = 12, minute = 0\<rparr>),
       appointment_of row_1300_1400
         (Some \<lparr>year = 2024, month = 5, day = 3, hour = 13, minute = 0\<rparr>)
         (Some \<lparr>year = 2024, month = 5, day = 3, hour = 14, minute = 0\<rparr>)],
      3) \<and>
   register_rows ascii_db second_fails 1 [row_1100_1200] =
     ([ng_line row_1100_1200 (host_failure (ascii ''rejected''))],
      [appointment_of row_1100_1200
         (Some \<lparr>year = 2024, month = 5, day = 2, hour = 11, minute = 0\<rparr>)
         (Some \<lparr>year = 2024, month = 5, day = 2, hour = 12, minute = 0\<rparr>)],
      2) \<and>
   register_rows ascii_db second_fails 0 [row_0900_1000] =
     ([ok_line row_0900_1000],
      [appointment_of row_0900_1000
         (Some \<lparr>year = 2024, month = 5, day = 1, hour = 9, minute = 0\<rparr>)
         (Some \<lparr>year = 2024, month = 5, day = 1, hour = 10, minute = 0\<rparr>)],
      1)"
proof -
  let ?s1 = "\<lparr>year = 2024, month = 5, day = 1, hour = 9, minute = 0\<rparr>"
  let ?e1 = "\<lparr>year = 2024, month = 5, day = 1, hour = 10, minute = 0\<rparr>"
  let ?s2 = "\<lparr>year = 2024, month = 5, day = 2, hour = 11, minute = 0\<rparr>"
  let ?e2 = "\<lparr>year = 2024, month = 5, day = 2, hour = 12, minute = 0\<rparr>"
  let ?s3 = "\<lparr>year = 2024, month = 5, day = 3, hour = 13, minute = 0\<rparr>"
  let ?e3 = "\<lparr>year = 2024, month = 5, day = 3, hour = 14, minute = 0\<rparr>"
  have d: "Dispatch second_fails 0 = None"
    by (simp add: second_fails_def)
  have p1: "parse_datetimes ascii_db row_0900_1000 = (Some ?s1, Some ?e1, None)"
    using strptime_0900 [OF db_ok_ascii] strptime_1000 [OF db_ok_ascii]
    by (simp add: parse_datetimes_def row_0900_1000_def dt_le_def) (simp add: ascii_def)
  have p2: "parse_datetimes ascii_db row_1100_1200 = (Some ?s2, Some ?e2, None)"
    using strptime_1100 [OF db_ok_ascii] strptime_1200 [OF db_ok_ascii]
    by (simp add: parse_datetimes_def row_1100_1200_def dt_le_def) (simp add: ascii_def)
  have p3: "parse_datetimes ascii_db row_1300_1400 = (Some ?s3, Some ?e3, None)"
    using strptime_1300 [OF db_ok_ascii] strptime_1400 [OF db_ok_ascii]
    by (simp add: parse_datetimes_def row_1300_1400_def dt_le_def) (simp add: ascii_def)
  have c1: "create second_fails 0 (appointment_of row_0900_1000 (Some ?s1) (Some ?e1)) = (None, 1)"
    by (simp add: second_fails_def)
  have c2: "create second_fails 1 (appointment_of row_1100_1200 (Some ?s2) (Some ?e2)) =
      (Some (ascii ''rejected''), 2)"
    by (simp add: second_fails_def)
  have c3: "create second_fails 2 (appointment_of row_1300_1400 (Some ?s3) (Some ?e3)) = (None, 3)"
    by (simp add: second_fails_def)
  note three = host_failure_isolated [where db = ascii_db and host = second_fails and ga = 0
      and ra = row_0900_1000 and sa = ?s1 and ea = ?e1 and gb = 1
      and rb = row_1100_1200 and sb = ?s2 and eb = ?e2 and excb = "ascii ''rejected''" and gc = 2
      and rc = row_1300_1400 and sc = ?s3 and ec = ?e3 and gd = 3]
  note failing = host_failure_isolated [where db = ascii_db and host = second_fails and h = 1
      and row = row_1100_1200 and start_dt = ?s2 and end_dt = ?e2
      and exc = "ascii ''rejected''" and hn = 2 and rest = "[]"]
  note passing = host_failure_isolated [where db = ascii_db and host = second_fails and h = 0
      and row = row_0900_1000 and start_dt = ?s1 and end_dt = ?e1 and hn = 1 and rest = "[]"]
  have run: "register_appointments ascii_db second_fails 0
      [row_0900_1000, row_1100_1200, row_1300_1400] =
     ([ok_line row_0900_1000, ng_line row_1100_1200 (host_failure (ascii ''rejected'')),
       ok_line row_1300_1400, msg_finished],
      [appointment_of row_0900_1000 (Some ?s1) (Some ?e1),
       appointment_of row_1100_1200 (Some ?s2) (Some ?e2),
       appointment_of row_1300_1400 (Some ?s3) (Some ?e3)], 3)"
    using three d p1 p2 p3 c1 c2 c3 by blast
  have one_failing: "register_rows ascii_db second_fails 1 [row_1100_1200] =
      (case register_rows ascii_db second_fails 2 [] of
         (lines, calls, h') \<Rightarrow>
           (ng_line row_1100_1200 (host_failure (ascii ''rejected'')) # lines,
            appointment_of row_1100_1200 (Some ?s2) (Some ?e2) # calls, h'))"
    using failing p2 c2 by blast
  have one_passing: "register_rows ascii_db second_fails 0 [row_0900_1000] =
      (case register_rows ascii_db second_fails 1 [] of
         (lines, calls, h') \<Rightarrow>
           (ok_line row_0900_1000 # lines,
            appointment_of row_0900_1000 (Some ?s1) (Some ?e1) # calls, h'))"
    using passing p1 c1 by blast
  show ?thesis
    using d p1 p2 p3 run one_failing one_passing
    by (simp del: register_rows.simps(2))
qed

section \<open>Properties of the application state\<close>

lemma select_csv_failure: "load_csv db (read file_path) = Inl e \<Longrightarrow> fst (select_csv db read file_path a) = a"
  by (cases e) (simp_all add: select_csv_def)

lemma select_csv_success:
  "file_path \<noteq> [] \<Longrightarrow> load_csv db (read file_path) = Inr rs \<Longrightarrow>
   fst (select_csv db read file_path a) =
     a\<lparr>csv_path := Some file_path, path_var := file_path, rows := rs,
       tree := refresh_tree rs, log_text := log_text a @ [msg_loaded (length rs)]\<rparr>"
  by (simp add: select_csv_def)

lemma on_register_rows:
  "rows (fst (on_register db host h a)) = rows a \<and>
   csv_path (fst (on_register db host h a)) = csv_path a \<and>
   tree (fst (on_register db host h a)) = tree a"
  by (simp add: on_register_def split: option.splits prod.splits)

text \<open>
  C9. A load changes the state of the application in one step or not at all. When the
  loader raises, the state after \<open>select_csv\<close> is the state before it: path, rows, table
  and log. When it returns rows, they replace the former ones together with the path and
  the table. Nothing else writes the rows: a submission leaves rows, path and table as they are.
\<close>

theorem select_csv_atomic:
  "(load_csv db (read file_path) = Inl e \<longrightarrow> fst (select_csv db read file_path a) = a) \<and>
   (load_csv db (read file_path) = Inl (ValueError text) \<and> file_path \<noteq> [] \<longrightarrow>
      select_csv db read file_path a = (a, ShowError text)) \<and>
   (file_path \<noteq> [] \<and> load_csv db (read file_path) = Inr rs \<longrightarrow>
      fst (select_csv db read file_path a) =
        a\<lparr>csv_path := Some file_path, path_var := file_path, rows := rs,
          tree := refresh_tree rs, log_text := log_text a @ [msg_loaded (length rs)]\<rparr>) \<and>
   (file_path = [] \<longrightarrow> fst (select_csv db read file_path a) = a) \<and>
   rows (fst (on_register db host h a)) = rows a \<and>
   csv_path (fst (on_register db host h a)) = csv_path a \<and>
   tree (fst (on_register db host h a)) = tree a"
proof (intro conjI impI)
  assume "load_csv db (read file_path) = Inl e"
  then show "fst (select_csv db read file_path a) = a" by (rule select_csv_failure)
next
  assume "load_csv db (read file_path) = Inl (ValueError text) \<and> file_path \<noteq> []"
  then show "select_csv db read file_path a = (a, ShowError text)"
    by (simp add: select_csv_def)
next
  assume "file_path \<noteq> [] \<and> load_csv db (read file_path) = Inr rs"
  then show "fst (select_csv db read file_path a) =
        a\<lparr>csv_path := Some file_path, path_var := file_path, rows := rs,
          tree := refresh_tree rs, log_text := log_text a @ [msg_loaded (length rs)]\<rparr>"
    by (simp add: select_csv_success)
next
  assume "file_path = []"
  then show "fst (select_csv db read file_path a) = a" by (simp add: select_csv_def)
next
  show "rows (fst (on_register db host h a)) = rows a" by (simp add: on_register_rows)
next
  show "csv_path (fst (on_register db host h a)) = csv_path a" by (simp add: on_register_rows)
next
  show "tree (fst (on_register db host h a)) = tree a" by (simp add: on_register_rows)
qed

theorem select_csv_atomic_witness:
  "load_csv ascii_db (read_files (ascii ''short.csv'')) =
     Inl (ValueError (msg_bad_header @ ascii ''End, Subject, Status, Location'')) \<and>
   select_csv ascii_db read_files (ascii ''short.csv'') loaded_app =
     (loaded_app, ShowError (msg_bad_header @ ascii ''End, Subject, Status, Location'')) \<and>
   load_csv ascii_db (read_files (ascii ''good.csv'')) = Inr [row_0900_1000] \<and>
   rows (fst (select_csv ascii_db read_files (ascii ''good.csv'') empty_app)) = [row_0900_1000] \<and>
   fst (select_csv ascii_db read_files [] loaded_app) = loaded_app \<and>
   rows (fst (on_register ascii_db (Some second_fails) 0 loaded_app)) = [row_0900_1000]"
proof -
  have short: "load_csv ascii_db (read_files (ascii ''short.csv'')) =
      Inl (ValueError (msg_bad_header @ ascii ''End, Subject, Status, Location''))"
    by code_simp
  have good: "load_csv ascii_db (read_files (ascii ''good.csv'')) = Inr [row_0900_1000]"
    by code_simp
  have ne: "ascii ''short.csv'' \<noteq> []" "ascii ''good.csv'' \<noteq> []"
    by (simp_all add: ascii_def)
  have r: "rows loaded_app = [row_0900_1000]"
    by (simp add: loaded_app_def)
  note fail = select_csv_atomic [of ascii_db read_files "ascii ''short.csv''" _
      loaded_app "msg_bad_header @ ascii ''End, Subject, Status, Location''" _
      "Some second_fails" 0]
  note succ = select_csv_atomic [of ascii_db read_files "ascii ''good.csv''" _
      empty_app _ "[row_0900_1000]" "Some second_fails" 0]
  note cancel = select_csv_atomic [of ascii_db read_files "[]" _ loaded_app _ _
      "Some second_fails" 0]
  have a: "select_csv ascii_db read_files (ascii ''short.csv'') loaded_app =
     (loaded_app, ShowError (msg_bad_header @ ascii ''End, Subject, Status, Location''))"
    using fail short ne by blast
  have b: "rows (fst (select_csv ascii_db read_files (ascii ''good.csv'') empty_app)) =
      [row_0900_1000]"
    using succ good ne by simp
  have c: "fst (select_csv ascii_db read_files [] loaded_app) = loaded_app"
    using cancel by blast
  have d: "rows (fst (on_register ascii_db (Some second_fails) 0 loaded_app)) = [row_0900_1000]"
    using cancel r by simp
  show ?thesis
    using short good a b c d by blast
qed

section \<open>Properties of the CSV loader\<close>

lemma load_csv_no_header: "load_csv db [] = Inl (ValueError msg_no_header)"
  by (simp add: load_csv_def fieldnames_def)

lemma load_csv_missing_fields:
  "missing_fields headers \<noteq> [] \<Longrightarrow>
   load_csv db (headers # data) =
     Inl (ValueError (msg_bad_header @ join (ascii '', '') (missing_fields headers)))"
  by (simp add: load_csv_def fieldnames_def)

lemma set_missing_fields: "set (missing_fields headers) = set EXPECTED_FIELDS - set headers"
  by (auto simp: missing_fields_def)

lemma strip_or_empty_raises: "strip_or_empty v = Inl e \<Longrightarrow> e = AttributeError"
  by (auto simp: strip_or_empty_def split: pyval.splits if_splits)

lemma any_nonblank_raises: "any_nonblank vs = Inl e \<Longrightarrow> e = AttributeError"
  by (induction vs) (auto split: sum.splits if_splits dest: strip_or_empty_raises)

lemma make_row_raises: "make_row db i raw = Inl e \<Longrightarrow> e = AttributeError"
  by (auto simp: make_row_def bind_exn_def split: sum.splits dest: strip_or_empty_raises)

lemma make_row_number: "make_row db i raw = Inr r \<Longrightarrow> row_number r = i"
  by (auto simp: make_row_def bind_exn_def split: sum.splits)

lemma load_rows_raises: "load_rows db i raws = Inl e \<Longrightarrow> e = AttributeError"
proof (induction raws arbitrary: i)
  case Nil
  then show ?case by simp
next
  case (Cons raw rest)
  then show ?case
    by (auto split: sum.splits bool.splits if_splits
        dest: any_nonblank_raises make_row_raises)
qed

lemma load_rows_blank:
  "any_nonblank (map snd raw) = Inr False \<Longrightarrow>
   load_rows db i (raw # rest) = load_rows db (i + 1) rest"
  by simp

lemma load_rows_kept:
  "any_nonblank (map snd raw) = Inr True \<Longrightarrow> make_row db i raw = Inr r \<Longrightarrow>
   load_rows db i (raw # rest) =
     (case load_rows db (i + 1) rest of Inl e \<Rightarrow> Inl e | Inr rs \<Rightarrow> Inr (r # rs))"
  by simp

text \<open>
  The number of a row that is kept is the start index plus the position of its record
  in the sequence that \<open>DictReader\<close> yields, whatever was passed over before it.
\<close>

lemma load_rows_numbers:
  "load_rows db i raws = Inr rs \<Longrightarrow> r \<in> set rs \<Longrightarrow>
   \<exists>k < length raws. make_row db (i + int k) (raws ! k) = Inr r \<and> row_number r = i + int k"
proof (induction raws arbitrary: i rs)
  case Nil
  then show ?case by simp
next
  case (Cons raw rest)
  show ?case
  proof (cases "any_nonblank (map snd raw)")
    case (Inl e)
    with Cons.prems show ?thesis by simp
  next
    case (Inr nonblank)
    show ?thesis
    proof (cases nonblank)
      case False
      with Inr Cons.prems have "load_rows db (i + 1) rest = Inr rs" by simp
      from Cons.IH [OF this Cons.prems(2)]
      obtain k where k: "k < length rest" "make_row db (i + 1 + int k) (rest ! k) = Inr r"
        "row_number r = i + 1 + int k" by blast
      have "make_row db (i + int (Suc k)) ((raw # rest) ! Suc k) = Inr r"
        using k(2) by (simp add: add.commute add.left_commute)
      moreover have "row_number r = i + int (Suc k)"
        using k(3) by simp
      ultimately show ?thesis
        using k(1) by (intro exI [of _ "Suc k"]) simp
    next
      case True
      from True Inr Cons.prems(1) obtain r0 rs0 where
        m: "make_row db i raw = Inr r0" and l: "load_rows db (i + 1) rest = Inr rs0"
        and rs: "rs = r0 # rs0"
        by (auto split: sum.splits)
      show ?thesis
      proof (cases "r = r0")
        case True
        then show ?thesis
          using m make_row_number [OF m] by (intro exI [of _ 0]) simp
      next
        case False
        with Cons.prems(2) rs have "r \<in> set rs0" by simp
        from Cons.IH [OF l this]
        obtain k where k: "k < length rest" "make_row db (i + 1 + int k) (rest ! k) = Inr r"
          "row_number r = i + 1 + int k" by blast
        have "make_row db (i + int (Suc k)) ((raw # rest) ! Suc k) = Inr r"
          using k(2) by (simp add: add.commute add.left_commute)
        moreover have "row_number r = i + int (Suc k)"
          using k(3) by simp
        ultimately show ?thesis
          using k(1) by (intro exI [of _ "Suc k"]) simp
      qed
    qed
  qed
qed

text \<open>
  A load fails with \<open>ValueError\<close> exactly when there is no header row or a required name
  is missing from it, and the message then lists the missing names in the order of
  \<open>EXPECTED_FIELDS\<close>.
\<close>

lemma load_csv_ValueError:
  "load_csv db lines = Inl (ValueError text) \<longleftrightarrow>
     (lines = [] \<and> text = msg_no_header) \<or>
     (\<exists>headers data. lines = headers # data \<and> missing_fields headers \<noteq> [] \<and>
        text = msg_bad_header @ join (ascii '', '') (missing_fields headers))"
proof (cases lines)
  case Nil
  then show ?thesis by (auto simp: load_csv_no_header)
next
  case (Cons headers data)
  show ?thesis
  proof (cases "missing_fields headers = []")
    case True
    then have "load_csv db lines = load_rows db 2 (DictReader lines)"
      using Cons by (simp add: load_csv_def fieldnames_def)
    then have "load_csv db lines \<noteq> Inl (ValueError text)"
      using load_rows_raises [of db 2 "DictReader lines" "ValueError text"] by auto
    with True Cons show ?thesis by simp
  next
    case False
    then show ?thesis
      using Cons load_csv_missing_fields [OF False, of db data] by auto
  qed
qed

text \<open>
  C2. The two header failures are not the only way for a load to fail. In the file
  \<open>file_long_blank_row\<close> the header is complete, and the data row has eight cells, the
  seven under the field names empty: the blank-row test reaches the list of surplus
  cells, calls \<open>strip\<close> on it, and the load ends with \<open>AttributeError\<close>.
\<close>

theorem load_csv_long_blank_row:
  "fieldnames file_long_blank_row = Some EXPECTED_FIELDS \<and>
   missing_fields EXPECTED_FIELDS = [] \<and>
   load_csv db file_long_blank_row = Inl AttributeError"
  by (simp add: load_csv_def fieldnames_def file_long_blank_row_def missing_fields_def
      DictReader_def dict_row_def EXPECTED_FIELDS_def ascii_def strip_or_empty_def py_strip_def)

text \<open>
  C3. The number of a row is its position among the records that \<open>DictReader\<close> yields,
  plus two, and \<open>DictReader\<close> passes over empty lines without counting them. In
  \<open>file_empty_line\<close> the second line is empty and the data row is the third line, yet its
  number is 2. A blank row with cells, as in \<open>file_blank_row\<close>, is counted: there the same
  data row, again on the third line, has the number 3.
\<close>

theorem load_csv_empty_line:
  "file_empty_line ! 2 = cells_0900_1000 \<and>
   load_csv ascii_db file_empty_line = Inr [row_0900_1000] \<and>
   row_number row_0900_1000 = 2 \<and>
   file_blank_row ! 2 = cells_0900_1000 \<and>
   load_csv ascii_db file_blank_row = Inr [row_0900_1000\<lparr>row_number := 3\<rparr>]"
proof (intro conjI)
  show "file_empty_line ! 2 = cells_0900_1000"
    by (simp add: file_empty_line_def)
  show "load_csv ascii_db file_empty_line = Inr [row_0900_1000]"
    by code_simp
  show "row_number row_0900_1000 = 2"
    by (simp add: row_0900_1000_def)
  show "file_blank_row ! 2 = cells_0900_1000"
    by (simp add: file_blank_row_def)
  show "load_csv ascii_db file_blank_row = Inr [row_0900_1000\<lparr>row_number := 3\<rparr>]"
    by code_simp
qed

subsection \<open>Rows that are blank under the required names\<close>

lemma named_dict_set_Str: "named d \<Longrightarrow> named (dict_set d (Some k) (Str v))"
  by (induction d) (auto simp: named_def)

lemma named_dict_set_NoneVal: "named d \<Longrightarrow> named (dict_set d (Some k) NoneVal)"
  by (induction d) (auto simp: named_def)

lemma named_zip:
  "named d \<Longrightarrow> named (foldl (\<lambda>d (k, v). dict_set d (Some k) (Str v)) d kvs)"
  by (induction kvs arbitrary: d) (auto simp: named_dict_set_Str)

lemma named_restval:
  "named d \<Longrightarrow> named (foldl (\<lambda>d k. dict_set d (Some k) NoneVal) d ks)"
  by (induction ks arbitrary: d) (auto simp: named_dict_set_NoneVal)

lemma dict_set_restkey: "named d \<Longrightarrow> dict_set d None v = d @ [(None, v)]"
  by (induction d) (auto simp: named_def)

lemma dict_row_shape:
  "\<exists>d extra. dict_row names cells = d @ extra \<and> named d \<and>
     (extra = [] \<or> extra = [(None, ListVal (drop (length names) cells))])"
proof -
  let ?d = "foldl (\<lambda>d (k, v). dict_set d (Some k) (Str v)) [] (zip names cells)"
  have n: "named ?d"
    by (rule named_zip) (simp add: named_def)
  show ?thesis
  proof (cases "length names < length cells")
    case True
    then have "dict_row names cells = ?d @ [(None, ListVal (drop (length names) cells))]"
      using dict_set_restkey [OF n] by (simp add: dict_row_def Let_def)
    with n show ?thesis by blast
  next
    case False
    note not_longer = this
    show ?thesis
    proof (cases "length cells < length names")
      case True
      let ?e = "foldl (\<lambda>d k. dict_set d (Some k) NoneVal) ?d (drop (length cells) names)"
      have "dict_row names cells = ?e @ []"
        using True not_longer by (simp add: dict_row_def Let_def)
      moreover have "named ?e"
        using n by (rule named_restval)
      ultimately show ?thesis by blast
    next
      case False
      then have "dict_row names cells = ?d @ []"
        using not_longer by (simp add: dict_row_def Let_def)
      with n show ?thesis by blast
    qed
  qed
qed

lemma any_nonblank_named:
  "named d \<Longrightarrow> (k, Str s) \<in> set d \<Longrightarrow> py_strip s \<noteq> [] \<Longrightarrow>
   any_nonblank (map snd d @ vs) = Inr True"
proof (induction d)
  case Nil
  then show ?case by simp
next
  case (Cons e d)
  obtain k' v' where e: "e = (k', v')" by (cases e)
  from Cons.prems(1) e have nd: "named d" and v': "\<forall>l. v' \<noteq> ListVal l"
    by (auto simp: named_def)
  show ?case
  proof (cases "(k, Str s) = e")
    case True
    with e Cons.prems(3) show ?thesis
      by (auto simp: strip_or_empty_def)
  next
    case False
    with Cons.prems(2) have "(k, Str s) \<in> set d" by simp
    from Cons.IH [OF nd this Cons.prems(3)]
    have "any_nonblank (map snd d @ vs) = Inr True" .
    with e v' show ?thesis
      by (cases v') (auto simp: strip_or_empty_def)
  qed
qed

lemma any_nonblank_dict_row:
  assumes "dict_get (dict_row names cells) name = Str s" and "py_strip s \<noteq> []"
  shows "any_nonblank (map snd (dict_row names cells)) = Inr True"
proof -
  obtain d extra where shape: "dict_row names cells = d @ extra" "named d"
    "extra = [] \<or> extra = [(None, ListVal (drop (length names) cells))]"
    using dict_row_shape by blast
  from assms(1) have "map_of (dict_row names cells) (Some name) = Some (Str s)"
    by (auto simp: dict_get_def split: option.splits)
  then have "(Some name, Str s) \<in> set (dict_row names cells)"
    by (rule map_of_SomeD)
  with shape(1,3) have "(Some name, Str s) \<in> set d"
    by auto
  from any_nonblank_named [OF shape(2) this assms(2)]
  show ?thesis
    using shape(1) by simp
qed

text \<open>
  When the value that is not blank stands in a column that the header names, the row is
  kept: its seven strings are empty and its busy code is 2.
\<close>

lemma named_column_keeps_row:
  assumes "list_all (\<lambda>field.
      strip_or_empty (dict_get (dict_row names cells) field) = Inr []) EXPECTED_FIELDS"
    and "dict_get (dict_row names cells) name = Str s" and "py_strip s \<noteq> []"
    and "lower db [] = []"
  shows "load_rows db i (dict_row names cells # rest) =
      (case load_rows db (i + 1) rest of
         Inl e \<Rightarrow> Inl e
       | Inr rs \<Rightarrow>
           Inr (\<lparr>row_number = i, date = [], start = [], end' = [], subject = [], status = [],
                 location = [], body = [], busy = 2\<rparr> # rs))"
proof -
  have nonblank: "any_nonblank (map snd (dict_row names cells)) = Inr True"
    using assms(2,3) by (rule any_nonblank_dict_row)
  have fields:
    "strip_or_empty (dict_get (dict_row names cells) (ascii ''Date'')) = Inr []"
    "strip_or_empty (dict_get (dict_row names cells) (ascii ''Start'')) = Inr []"
    "strip_or_empty (dict_get (dict_row names cells) (ascii ''End'')) = Inr []"
    "strip_or_empty (dict_get (dict_row names cells) (ascii ''Subject'')) = Inr []"
    "strip_or_empty (dict_get (dict_row names cells) (ascii ''Status'')) = Inr []"
    "strip_or_empty (dict_get (dict_row names cells) (ascii ''Location'')) = Inr []"
    "strip_or_empty (dict_get (dict_row names cells) (ascii ''Body'')) = Inr []"
    using assms(1) by (simp_all add: EXPECTED_FIELDS_def)
  have row: "make_row db i (dict_row names cells) =
      Inr \<lparr>row_number = i, date = [], start = [], end' = [], subject = [], status = [],
           location = [], body = [], busy = 2\<rparr>"
    by (simp add: make_row_def bind_exn_def fields map_busy_status_empty [OF assms(4)])
  show ?thesis
    by (rule load_rows_kept [OF nonblank row])
qed

lemma blank_x_required_fields:
  "list_all (\<lambda>field.
      strip_or_empty (dict_get (dict_row EXPECTED_FIELDS cells_blank_x) field) = Inr [])
     EXPECTED_FIELDS"
  by (simp add: EXPECTED_FIELDS_def cells_blank_x_def dict_row_def dict_get_def
      strip_or_empty_def ascii_def py_strip_def py_isspace_def)

lemma blank_x_dict_row:
  "dict_row EXPECTED_FIELDS cells_blank_x =
     [(Some (ascii ''Date''), Str []), (Some (ascii ''Start''), Str [32]),
      (Some (ascii ''End''), Str []), (Some (ascii ''Subject''), Str []),
      (Some (ascii ''Status''), Str []), (Some (ascii ''Location''), Str []),
      (Some (ascii ''Body''), Str []), (None, ListVal [ascii ''x''])]"
  by (simp add: EXPECTED_FIELDS_def cells_blank_x_def dict_row_def ascii_def)

text \<open>
  C10. The blank-row test goes through every value of the record, and it keeps a row
  whose required fields are blank only when the further value stands under a name of the
  header, as in \<open>file_note_column\<close>. In \<open>file_surplus_cell\<close> the same row follows a header of
  the seven names only: its seven required fields are empty or white space and its
  eighth cell holds \<open>x\<close>. That cell is in the list under the key \<open>None\<close>; the test calls
  \<open>strip\<close> on the list and raises \<open>AttributeError\<close>, so the row is not kept and the load
  returns no rows at all.
\<close>

theorem surplus_cell_not_kept:
  "list_all (\<lambda>field.
      strip_or_empty (dict_get (dict_row EXPECTED_FIELDS cells_blank_x) field) = Inr [])
     EXPECTED_FIELDS \<and>
   cells_blank_x ! 7 = ascii ''x'' \<and>
   map_of (dict_row EXPECTED_FIELDS cells_blank_x) None = Some (ListVal [ascii ''x'']) \<and>
   any_nonblank (map snd (dict_row EXPECTED_FIELDS cells_blank_x)) = Inl AttributeError \<and>
   load_csv db file_surplus_cell = Inl AttributeError \<and>
   load_csv ascii_db file_note_column =
     Inr [\<lparr>row_number = 2, date = [], start = [], end' = [], subject = [], status = [],
           location = [], body = [], busy = 2\<rparr>]"
proof (intro conjI)
  show "list_all (\<lambda>field.
      strip_or_empty (dict_get (dict_row EXPECTED_FIELDS cells_blank_x) field) = Inr [])
     EXPECTED_FIELDS"
    by (rule blank_x_required_fields)
  show "cells_blank_x ! 7 = ascii ''x''"
    by (simp add: cells_blank_x_def)
  show "map_of (dict_row EXPECTED_FIELDS cells_blank_x) None = Some (ListVal [ascii ''x''])"
    by (simp add: blank_x_dict_row)
  show test: "any_nonblank (map snd (dict_row EXPECTED_FIELDS cells_blank_x)) =
      Inl AttributeError"
    by (simp add: blank_x_dict_row strip_or_empty_def py_strip_def py_isspace_def)
  have "load_csv db file_surplus_cell =
      load_rows db 2 [dict_row EXPECTED_FIELDS cells_blank_x]"
    by (simp add: load_csv_def file_surplus_cell_def fieldnames_def missing_fields_def
        DictReader_def cells_blank_x_def)
  then show "load_csv db file_surplus_cell = Inl AttributeError"
    using test by simp
  show "load_csv ascii_db file_note_column =
     Inr [\<lparr>row_number = 2, date = [], start = [], end' = [], subject = [], status = [],
           location = [], body = [], busy = 2\<rparr>]"
    by code_simp
qed

end
